theory Spec2Isabelle
  imports Main "HOL-Library.Word"
begin

section \<open>The DHCP client of EtherCard (dhcp.cpp)\<close>

text \<open>
  A shallow embedding of \<^verbatim>\<open>src/Ethercard_ESP/dhcp.cpp\<close>. The statics of the file and
  of class EtherCard that the DHCP code touches are the fields of one record, which every
  function takes and returns. The shared packet buffer \<^verbatim>\<open>gPB\<close> is a list of octets;
  pointers into it are offsets. An access outside the buffer or outside a fixed-size array,
  and a call through a null function pointer, are undefined behaviour in C++: here they end
  the run with a \<open>fault\<close> (\<open>Inl\<close>).
\<close>

subsection \<open>Data\<close>

type_synonym byte = "8 word"
type_synonym u16 = "16 word"
type_synonym u32 = "32 word"

datatype fault = OutOfBounds | NullCall

text \<open>The anonymous enum of class EtherCard (EtherCard.h), in its order.\<close>

datatype dhcp_state =
    DHCP_STATE_INIT
  | DHCP_STATE_SELECTING
  | DHCP_STATE_REQUESTING
  | DHCP_STATE_BOUND
  | DHCP_STATE_RENEWING
  | DHCP_STATE_RELEASING
  | DHCP_STATE_RELEASED

text \<open>\<^verbatim>\<open>uint8_t x[IP_LEN]\<close> and \<^verbatim>\<open>uint8_t x[ETH_LEN]\<close>: arrays of exactly 4 and 6 octets.\<close>

datatype ip_addr = IpAddr byte byte byte byte

datatype mac_addr = MacAddr byte byte byte byte byte byte

fun ip_bytes :: "ip_addr \<Rightarrow> byte list" where
  "ip_bytes (IpAddr a b c d) = [a, b, c, d]"

fun mac_bytes :: "mac_addr \<Rightarrow> byte list" where
  "mac_bytes (MacAddr a b c d e f) = [a, b, c, d, e, f]"

fun ip0 :: "ip_addr \<Rightarrow> byte" where
  "ip0 (IpAddr a b c d) = a"

fun mac5 :: "mac_addr \<Rightarrow> byte" where
  "mac5 (MacAddr a b c d e f) = f"

definition ip_zero :: ip_addr where
  "ip_zero = IpAddr 0 0 0 0"

text \<open>
  \<^verbatim>\<open>allOnes\<close> is six octets 0xFF; \<^verbatim>\<open>udpPrepare\<close> reads its first four as an IPv4
  address, \<^verbatim>\<open>copyMac\<close> all six.
\<close>

definition allOnes :: "byte list" where
  "allOnes = [0xFF, 0xFF, 0xFF, 0xFF, 0xFF, 0xFF]"

definition allOnes_ip :: ip_addr where
  "allOnes_ip = IpAddr 0xFF 0xFF 0xFF 0xFF"

text \<open>
  What the DHCP code does to the outside, in the order it does it. The transport
  (\<^verbatim>\<open>udpPrepare\<close>, \<^verbatim>\<open>udpTransmit\<close>), \<^verbatim>\<open>setGwIp\<close> and the registered option callback are
  not part of dhcp.cpp; each call is recorded with its arguments.
  \<^item> \<open>UdpPrepare sport dip dport\<close>: \<^verbatim>\<open>udpPrepare(sport, dip, dport)\<close>;
  \<^item> \<open>UdpTransmit st payload\<close>: \<^verbatim>\<open>udpTransmit(n)\<close>, with the \<open>n\<close> octets of the buffer
    from \<^verbatim>\<open>UDP_DATA_P\<close> on (the UDP payload), and the value of \<^verbatim>\<open>dhcpState\<close> at the call;
  \<^item> \<open>OptionCallback option ptr optionLen\<close>: the call of the registered callback, \<open>ptr\<close>
    being the offset of the option's value in the buffer;
  \<^item> \<open>SetGwIp ip\<close>: \<^verbatim>\<open>setGwIp(gwip)\<close>.
\<close>

datatype event =
    UdpPrepare u16 ip_addr u16
  | UdpTransmit dhcp_state "byte list"
  | OptionCallback byte nat byte
  | SetGwIp ip_addr

record ether =
  dhcpState :: dhcp_state
  using_dhcp :: bool
  mymac :: mac_addr
  myip :: ip_addr
  netmask :: ip_addr
  broadcastip :: ip_addr
  gwip :: ip_addr
  dhcpip :: ip_addr
  dnsip :: ip_addr
  hisip :: ip_addr
  hostname :: "byte list"
  currentXid :: u32
  stateTimer :: u32
  leaseStart :: u32
  leaseTime :: u32
  bufPtr :: nat
  dhcpCustomOptionNum :: byte
  dhcpCustomOptionCallback :: bool
  gPB :: "byte list"
  trace :: "event list"

text \<open>
  \<open>dhcpCustomOptionCallback\<close> says whether the function pointer of that name is non-null;
  \<open>hostname\<close> is the array \<^verbatim>\<open>char hostname[DHCP_HOSTNAME_MAX_LEN]\<close>; \<open>bufPtr\<close> is the
  write cursor, as an offset into \<open>gPB\<close>.
\<close>

subsection \<open>Constants\<close>

text \<open>
  Modelled from the spec: \<^verbatim>\<open>net.h\<close>, which defines the offsets below, is not among the
  sources. The spec fixes DHCP over UDP over IPv4 over Ethernet: 14 octets of Ethernet
  header, 20 of IPv4 header and 8 of UDP header, so the UDP source port is at octets 34
  (high) and 35 (low) and the UDP payload starts at octet 42; an IPv4 address has 4 octets
  and a hardware address 6.
\<close>

definition ETH_DST_MAC :: nat where "ETH_DST_MAC = 0"
definition UDP_SRC_PORT_H_P :: nat where "UDP_SRC_PORT_H_P = 34"
definition UDP_SRC_PORT_L_P :: nat where "UDP_SRC_PORT_L_P = 35"
definition UDP_DATA_P :: nat where "UDP_DATA_P = 42"
definition IP_LEN :: byte where "IP_LEN = 4"
definition ETH_LEN :: byte where "ETH_LEN = 6"

text \<open>From dhcp.cpp.\<close>

definition DHCP_BOOTP_REQUEST :: byte where "DHCP_BOOTP_REQUEST = 1"
definition DHCP_DISCOVER :: byte where "DHCP_DISCOVER = 1"
definition DHCP_OFFER :: byte where "DHCP_OFFER = 2"
definition DHCP_REQUEST :: byte where "DHCP_REQUEST = 3"
definition DHCP_ACK :: byte where "DHCP_ACK = 5"
definition DHCP_RELEASE :: byte where "DHCP_RELEASE = 7"
definition DHCP_SERVER_PORT :: u16 where "DHCP_SERVER_PORT = 67"
definition DHCP_CLIENT_PORT :: u16 where "DHCP_CLIENT_PORT = 68"
definition DHCP_REQUEST_TIMEOUT :: u32 where "DHCP_REQUEST_TIMEOUT = 10000"
definition DHCP_HOSTNAME_MAX_LEN :: nat where "DHCP_HOSTNAME_MAX_LEN = 32"
definition DHCP_INFINITE_LEASE :: u32 where "DHCP_INFINITE_LEASE = 0xffffffff"

definition DHCP_OPT_SUBNET_MASK :: byte where "DHCP_OPT_SUBNET_MASK = 1"
definition DHCP_OPT_TIME_OFFSET :: byte where "DHCP_OPT_TIME_OFFSET = 2"
definition DHCP_OPT_ROUTERS :: byte where "DHCP_OPT_ROUTERS = 3"
definition DHCP_OPT_TIME_SERVERS :: byte where "DHCP_OPT_TIME_SERVERS = 4"
definition DHCP_OPT_DOMAIN_NAME_SERVERS :: byte where "DHCP_OPT_DOMAIN_NAME_SERVERS = 6"
definition DHCP_OPT_HOSTNAME :: byte where "DHCP_OPT_HOSTNAME = 12"
definition DHCP_OPT_NTP_SERVERS :: byte where "DHCP_OPT_NTP_SERVERS = 42"
definition DHCP_OPT_REQUESTED_ADDRESS :: byte where "DHCP_OPT_REQUESTED_ADDRESS = 50"
definition DHCP_OPT_LEASE_TIME :: byte where "DHCP_OPT_LEASE_TIME = 51"
definition DHCP_OPT_MESSAGE_TYPE :: byte where "DHCP_OPT_MESSAGE_TYPE = 53"
definition DHCP_OPT_SERVER_IDENTIFIER :: byte where "DHCP_OPT_SERVER_IDENTIFIER = 54"
definition DHCP_OPT_PARAMETER_REQUEST_LIST :: byte where "DHCP_OPT_PARAMETER_REQUEST_LIST = 55"
definition DHCP_OPT_RENEWAL_TIME :: byte where "DHCP_OPT_RENEWAL_TIME = 58"
definition DHCP_OPT_CLIENT_IDENTIFIER :: byte where "DHCP_OPT_CLIENT_IDENTIFIER = 61"
definition DHCP_OPT_DOMAIN_SEARCH_LIST :: byte where "DHCP_OPT_DOMAIN_SEARCH_LIST = 119"
definition DHCP_OPT_END :: byte where "DHCP_OPT_END = 255"
definition DHCP_HTYPE_ETHER :: byte where "DHCP_HTYPE_ETHER = 1"

text \<open>
  \<^verbatim>\<open>struct DHCPdata\<close>: 236 octets, no padding. The offsets of its fields:
  op 0, htype 1, hlen 2, hops 3, xid 4, secs 8, flags 10, ciaddr 12, yiaddr 16, siaddr 20,
  giaddr 24, chaddr 28, sname 44, file 108.
\<close>

definition sizeof_DHCPdata :: nat where "sizeof_DHCPdata = 236"
definition op_P :: nat where "op_P = 0"
definition htype_P :: nat where "htype_P = 1"
definition hlen_P :: nat where "hlen_P = 2"
definition xid_P :: nat where "xid_P = 4"
definition ciaddr_P :: nat where "ciaddr_P = 12"
definition yiaddr_P :: nat where "yiaddr_P = 16"
definition siaddr_P :: nat where "siaddr_P = 20"
definition chaddr_P :: nat where "chaddr_P = 28"

text \<open>The magic cookie, and where the options start: \<^verbatim>\<open>(byte *)(dhcpPtr + 1) + 4\<close>.\<close>

definition cookie :: "byte list" where
  "cookie = [0x63, 0x82, 0x53, 0x63]"

definition options_P :: nat where
  "options_P = UDP_DATA_P + sizeof_DHCPdata + 4"

subsection \<open>The buffer\<close>

text \<open>
  A \<^verbatim>\<open>uint32_t\<close> lies in memory least significant octet first on the targets of this
  library (AVR, ESP8266, ESP32); \<^verbatim>\<open>dhcpPtr->xid\<close> is written and read that way.
\<close>

definition u32_bytes :: "u32 \<Rightarrow> byte list" where
  "u32_bytes w = [ucast w, ucast (drop_bit 8 w), ucast (drop_bit 16 w), ucast (drop_bit 24 w)]"

definition u32_of :: "byte \<Rightarrow> byte \<Rightarrow> byte \<Rightarrow> byte \<Rightarrow> u32" where
  "u32_of b0 b1 b2 b3 =
     ucast b0 + push_bit 8 (ucast b1) + push_bit 16 (ucast b2) + push_bit 24 (ucast b3)"

definition rd :: "byte list \<Rightarrow> nat \<Rightarrow> fault + byte" where
  "rd buf i = (if i < length buf then Inr (buf ! i) else Inl OutOfBounds)"

definition rd_ip :: "byte list \<Rightarrow> nat \<Rightarrow> fault + ip_addr" where
  "rd_ip buf i =
     (if i + 4 \<le> length buf
      then Inr (IpAddr (buf ! i) (buf ! (i + 1)) (buf ! (i + 2)) (buf ! (i + 3)))
      else Inl OutOfBounds)"

definition rd_bytes :: "byte list \<Rightarrow> nat \<Rightarrow> nat \<Rightarrow> fault + byte list" where
  "rd_bytes buf i n =
     (if i + n \<le> length buf then Inr (take n (drop i buf)) else Inl OutOfBounds)"

definition rd_u32 :: "byte list \<Rightarrow> nat \<Rightarrow> fault + u32" where
  "rd_u32 buf i =
     (if i + 4 \<le> length buf
      then Inr (u32_of (buf ! i) (buf ! (i + 1)) (buf ! (i + 2)) (buf ! (i + 3)))
      else Inl OutOfBounds)"

text \<open>Writing the octets \<open>bs\<close> into the buffer from offset \<open>i\<close> on.\<close>

primrec put :: "nat \<Rightarrow> byte list \<Rightarrow> byte list \<Rightarrow> byte list" where
  "put i [] buf = buf"
| "put i (b # bs) buf = put (Suc i) bs (buf[i := b])"

definition poke :: "nat \<Rightarrow> byte list \<Rightarrow> ether \<Rightarrow> fault + ether" where
  "poke i bs s =
     (if i + length bs \<le> length (gPB s)
      then Inr (s\<lparr>gPB := put i bs (gPB s)\<rparr>)
      else Inl OutOfBounds)"

text \<open>Statements in sequence; a fault ends the run.\<close>

fun seq :: "('s \<Rightarrow> fault + 's) list \<Rightarrow> 's \<Rightarrow> fault + 's" where
  "seq [] s = Inr s"
| "seq (f # fs) s = (case f s of Inl e \<Rightarrow> Inl e | Inr s' \<Rightarrow> seq fs s')"

definition emit :: "event \<Rightarrow> ether \<Rightarrow> fault + ether" where
  "emit e s = Inr (s\<lparr>trace := trace s @ [e]\<rparr>)"

text \<open>\<^verbatim>\<open>*bufPtr++ = b\<close>\<close>

definition addToBuf :: "byte \<Rightarrow> ether \<Rightarrow> fault + ether" where
  "addToBuf b s =
     (if bufPtr s < length (gPB s)
      then Inr (s\<lparr>gPB := (gPB s)[bufPtr s := b], bufPtr := Suc (bufPtr s)\<rparr>)
      else Inl OutOfBounds)"

text \<open>
  \<^verbatim>\<open>while (len-- > 0) addToBuf(*data++)\<close>: the argument is the \<open>len\<close> octets read from
  \<open>data\<close>.
\<close>

fun addBytes :: "byte list \<Rightarrow> ether \<Rightarrow> fault + ether" where
  "addBytes [] s = Inr s"
| "addBytes (b # bs) s = (case addToBuf b s of Inl e \<Rightarrow> Inl e | Inr s' \<Rightarrow> addBytes bs s')"

definition addOption :: "byte \<Rightarrow> byte \<Rightarrow> byte list \<Rightarrow> ether \<Rightarrow> fault + ether" where
  "addOption opt len data =
     seq [addToBuf opt, addToBuf len, addBytes (take (unat len) data)]"

text \<open>
  Modelled from the spec: the transport (\<^verbatim>\<open>udpPrepare\<close> and \<^verbatim>\<open>udpTransmit\<close> of udp.cpp)
  and \<^verbatim>\<open>setGwIp\<close>, \<^verbatim>\<open>copyIp\<close> and \<^verbatim>\<open>copyMac\<close> of EtherCard.cpp are not among the
  sources. The spec gives them as \<open>prepareOutbound(sourcePort, destAddress, destPort)\<close>,
  \<open>transmit(length)\<close>, \<open>triggerArpFor(ipAddress)\<close> (fire-and-forget) and the copies of 4
  and of 6 octets. The copies are written out where they are called; the other calls are
  recorded in the trace, and \<^verbatim>\<open>udpTransmit(n)\<close> needs the \<open>n\<close> octets of payload to lie in
  the buffer.
\<close>

definition udpPrepare :: "u16 \<Rightarrow> ip_addr \<Rightarrow> u16 \<Rightarrow> ether \<Rightarrow> fault + ether" where
  "udpPrepare sport dip dport = emit (UdpPrepare sport dip dport)"

definition udpTransmit :: "nat \<Rightarrow> ether \<Rightarrow> fault + ether" where
  "udpTransmit n s =
     (if UDP_DATA_P + n \<le> length (gPB s)
      then emit (UdpTransmit (dhcpState s) (take n (drop UDP_DATA_P (gPB s)))) s
      else Inl OutOfBounds)"

subsection \<open>Strings\<close>

text \<open>
  \<^verbatim>\<open>strlen\<close> on a fixed array: the number of octets before the first NUL; with no NUL in
  the array it reads past the end.
\<close>

definition strlen :: "byte list \<Rightarrow> fault + nat" where
  "strlen a = (if 0 \<in> set a then Inr (length (takeWhile (\<lambda>c. c \<noteq> 0) a)) else Inl OutOfBounds)"

text \<open>
  \<^verbatim>\<open>strncpy(dst, src, n)\<close> into an array: the characters of \<open>src\<close> before its NUL, at
  most \<open>n\<close> of them, then NULs up to \<open>n\<close> octets. \<open>src\<close> is the text the pointer points
  to.
\<close>

definition strncpy :: "byte list \<Rightarrow> byte list \<Rightarrow> nat \<Rightarrow> fault + byte list" where
  "strncpy dst src n =
     (let c = takeWhile (\<lambda>x. x \<noteq> 0) src in
      if n \<le> length dst
      then Inr (take n c @ replicate (n - length c) 0 @ drop n dst)
      else Inl OutOfBounds)"

subsection \<open>Sending\<close>

text \<open>
  \<^verbatim>\<open>send_dhcp_message(requestip)\<close>; \<open>None\<close> is the null pointer. The octets that the
  transport writes below \<^verbatim>\<open>UDP_DATA_P\<close> (the Ethernet, IP and UDP headers) are not
  modelled: nothing below reads them after a send.
\<close>

definition send_dhcp_message :: "ip_addr option \<Rightarrow> ether \<Rightarrow> fault + ether" where
  "send_dhcp_message requestip =
     seq [
       poke 0 (replicate (UDP_DATA_P + sizeof_DHCPdata) 0),
       (\<lambda>s. udpPrepare DHCP_CLIENT_PORT
               (if dhcpState s = DHCP_STATE_BOUND then dhcpip s else allOnes_ip)
               DHCP_SERVER_PORT s),
       poke ETH_DST_MAC allOnes,
       poke (UDP_DATA_P + op_P) [DHCP_BOOTP_REQUEST],
       poke (UDP_DATA_P + htype_P) [1],
       poke (UDP_DATA_P + hlen_P) [6],
       (\<lambda>s. poke (UDP_DATA_P + xid_P) (u32_bytes (currentXid s)) s),
       (\<lambda>s. if dhcpState s = DHCP_STATE_BOUND
             then poke (UDP_DATA_P + ciaddr_P) (ip_bytes (myip s)) s
             else Inr s),
       (\<lambda>s. poke (UDP_DATA_P + chaddr_P) (mac_bytes (mymac s)) s),
       (\<lambda>s. Inr (s\<lparr>bufPtr := UDP_DATA_P + sizeof_DHCPdata\<rparr>)),
       addBytes cookie,
       addToBuf DHCP_OPT_MESSAGE_TYPE,
       addToBuf 1,
       (\<lambda>s. addToBuf (if dhcpState s = DHCP_STATE_INIT then DHCP_DISCOVER else DHCP_REQUEST) s),
       addToBuf DHCP_OPT_CLIENT_IDENTIFIER,
       addToBuf (1 + ETH_LEN),
       addToBuf DHCP_HTYPE_ETHER,
       (\<lambda>s. addBytes (mac_bytes (mymac s)) s),
       (\<lambda>s. case rd (hostname s) 0 of
               Inl e \<Rightarrow> Inl e
             | Inr c \<Rightarrow>
                 if c \<noteq> 0
                 then (case strlen (hostname s) of
                         Inl e \<Rightarrow> Inl e
                       | Inr n \<Rightarrow> addOption DHCP_OPT_HOSTNAME (of_nat n) (hostname s) s)
                 else Inr s),
       (case requestip of
          None \<Rightarrow> Inr
        | Some ip \<Rightarrow>
            seq [addOption DHCP_OPT_REQUESTED_ADDRESS IP_LEN (ip_bytes ip),
                 (\<lambda>s. addOption DHCP_OPT_SERVER_IDENTIFIER IP_LEN (ip_bytes (dhcpip s)) s)]),
       addToBuf DHCP_OPT_PARAMETER_REQUEST_LIST,
       (\<lambda>s. addToBuf (if dhcpCustomOptionNum s \<noteq> 0 then 8 + 1 else 8) s),
       addToBuf DHCP_OPT_SUBNET_MASK,
       addToBuf DHCP_OPT_TIME_OFFSET,
       addToBuf DHCP_OPT_ROUTERS,
       addToBuf DHCP_OPT_TIME_SERVERS,
       addToBuf DHCP_OPT_DOMAIN_NAME_SERVERS,
       addToBuf DHCP_OPT_NTP_SERVERS,
       addToBuf DHCP_OPT_DOMAIN_SEARCH_LIST,
       (\<lambda>s. if dhcpCustomOptionNum s \<noteq> 0 then addToBuf (dhcpCustomOptionNum s) s else Inr s),
       addToBuf DHCP_OPT_END,
       (\<lambda>s. udpTransmit (bufPtr s - UDP_DATA_P) s)
     ]"

subsection \<open>Receiving\<close>

text \<open>
  The three scans over the options are \<^verbatim>\<open>do ... while (ptr < gPB + len)\<close> loops: the
  body runs once before the bound is looked at. \<open>ptr\<close> is the offset of the option's tag.
\<close>

function offer_scan :: "nat \<Rightarrow> nat \<Rightarrow> ether \<Rightarrow> fault + ether" where
  "offer_scan len ptr s =
     (case rd (gPB s) ptr of
        Inl e \<Rightarrow> Inl e
      | Inr option \<Rightarrow>
         (case rd (gPB s) (ptr + 1) of
            Inl e \<Rightarrow> Inl e
          | Inr optionLen \<Rightarrow>
              if option = DHCP_OPT_SERVER_IDENTIFIER
              then (case rd_ip (gPB s) (ptr + 2) of
                      Inl e \<Rightarrow> Inl e
                    | Inr ip \<Rightarrow> Inr (s\<lparr>dhcpip := ip\<rparr>))
              else if ptr + 2 + unat optionLen < len
              then offer_scan len (ptr + 2 + unat optionLen) s
              else Inr s))"
  by pat_completeness auto
termination
  by (relation "measure (\<lambda>(len, ptr, s). len - ptr)") auto

definition process_dhcp_offer :: "u16 \<Rightarrow> ether \<Rightarrow> fault + (ip_addr \<times> ether)" where
  "process_dhcp_offer len s =
     (case rd_ip (gPB s) (UDP_DATA_P + yiaddr_P) of
        Inl e \<Rightarrow> Inl e
      | Inr offeredip \<Rightarrow>
         (case offer_scan (unat len) options_P s of
            Inl e \<Rightarrow> Inl e
          | Inr s' \<Rightarrow> Inr (offeredip, s')))"

text \<open>
  The lease time of options 51 and 58:
  \<^verbatim>\<open>leaseTime = 0; for (i < 4) leaseTime = (leaseTime << 8) + ptr[i];\<close>
  \<^verbatim>\<open>if (leaseTime != DHCP_INFINITE_LEASE) leaseTime *= 1000;\<close>
\<close>

definition lease_seconds :: "byte list \<Rightarrow> u32" where
  "lease_seconds bs = foldl (\<lambda>l b. push_bit 8 l + ucast b) 0 bs"

definition lease_millis :: "u32 \<Rightarrow> u32" where
  "lease_millis l = (if l \<noteq> DHCP_INFINITE_LEASE then l * 1000 else l)"

text \<open>
  The \<^verbatim>\<open>switch (option)\<close> of \<^verbatim>\<open>process_dhcp_ack\<close>; \<open>ptr\<close> is the offset of the option's
  value. The result says whether \<^verbatim>\<open>done\<close> was set.
\<close>

definition ack_option :: "byte \<Rightarrow> nat \<Rightarrow> ether \<Rightarrow> fault + (bool \<times> ether)" where
  "ack_option option ptr s =
     (if option = DHCP_OPT_SUBNET_MASK then
        (case rd_ip (gPB s) ptr of Inl e \<Rightarrow> Inl e | Inr ip \<Rightarrow> Inr (False, s\<lparr>netmask := ip\<rparr>))
      else if option = DHCP_OPT_ROUTERS then
        (case rd_ip (gPB s) ptr of Inl e \<Rightarrow> Inl e | Inr ip \<Rightarrow> Inr (False, s\<lparr>gwip := ip\<rparr>))
      else if option = DHCP_OPT_DOMAIN_NAME_SERVERS then
        (case rd_ip (gPB s) ptr of Inl e \<Rightarrow> Inl e | Inr ip \<Rightarrow> Inr (False, s\<lparr>dnsip := ip\<rparr>))
      else if option = DHCP_OPT_LEASE_TIME \<or> option = DHCP_OPT_RENEWAL_TIME then
        (case rd_bytes (gPB s) ptr 4 of
           Inl e \<Rightarrow> Inl e
         | Inr bs \<Rightarrow> Inr (False, s\<lparr>leaseTime := lease_millis (lease_seconds bs)\<rparr>))
      else if option = DHCP_OPT_END then Inr (True, s)
      else Inr (False, s))"

text \<open>
  \<^verbatim>\<open>dhcpCustomOptionCallback(option, ptr, optionLen)\<close>: a call through the function
  pointer, with no test of it. The callback is taken to leave the statics and the buffer
  alone.
\<close>

definition call_callback :: "byte \<Rightarrow> nat \<Rightarrow> byte \<Rightarrow> ether \<Rightarrow> fault + ether" where
  "call_callback option ptr optionLen s =
     (if dhcpCustomOptionCallback s
      then emit (OptionCallback option ptr optionLen) s
      else Inl NullCall)"

function ack_loop :: "nat \<Rightarrow> nat \<Rightarrow> ether \<Rightarrow> fault + ether" where
  "ack_loop len ptr s =
     (case rd (gPB s) ptr of
        Inl e \<Rightarrow> Inl e
      | Inr option \<Rightarrow>
         (case rd (gPB s) (ptr + 1) of
            Inl e \<Rightarrow> Inl e
          | Inr optionLen \<Rightarrow>
             (case ack_option option (ptr + 2) s of
                Inl e \<Rightarrow> Inl e
              | Inr (done, s1) \<Rightarrow>
                 (case call_callback option (ptr + 2) optionLen s1 of
                    Inl e \<Rightarrow> Inl e
                  | Inr s2 \<Rightarrow>
                      if \<not> done \<and> ptr + 2 + unat optionLen < len
                      then ack_loop len (ptr + 2 + unat optionLen) s2
                      else Inr s2))))"
  by pat_completeness auto
termination
  by (relation "measure (\<lambda>(len, ptr, s). len - ptr)") auto

definition process_dhcp_ack :: "u16 \<Rightarrow> ether \<Rightarrow> fault + ether" where
  "process_dhcp_ack len s =
     (case rd_ip (gPB s) (UDP_DATA_P + yiaddr_P) of
        Inl e \<Rightarrow> Inl e
      | Inr ip \<Rightarrow> ack_loop (unat len) options_P (s\<lparr>myip := ip\<rparr>))"

function msg_type_scan :: "byte list \<Rightarrow> nat \<Rightarrow> byte \<Rightarrow> nat \<Rightarrow> fault + bool" where
  "msg_type_scan buf len msgType ptr =
     (case rd buf ptr of
        Inl e \<Rightarrow> Inl e
      | Inr option \<Rightarrow>
         (case rd buf (ptr + 1) of
            Inl e \<Rightarrow> Inl e
          | Inr optionLen \<Rightarrow>
             (case (if option = DHCP_OPT_MESSAGE_TYPE then rd buf (ptr + 2) else Inr 0) of
                Inl e \<Rightarrow> Inl e
              | Inr v \<Rightarrow>
                  if option = DHCP_OPT_MESSAGE_TYPE \<and> v = msgType then Inr True
                  else if ptr + 2 + unat optionLen < len
                  then msg_type_scan buf len msgType (ptr + 2 + unat optionLen)
                  else Inr False)))"
  by pat_completeness auto
termination
  by (relation "measure (\<lambda>(buf, len, msgType, ptr). len - ptr)") auto

text \<open>
  \<^verbatim>\<open>(len >= 70) && (gPB[UDP_SRC_PORT_L_P] == DHCP_SERVER_PORT) && (dhcpPtr->xid == currentXid)\<close>,
  left to right, each operand read only when the ones before it hold.
\<close>

definition dhcp_received_message_type :: "u16 \<Rightarrow> byte \<Rightarrow> ether \<Rightarrow> fault + bool" where
  "dhcp_received_message_type len msgType s =
     (if \<not> 70 \<le> len then Inr False
      else
        (case rd (gPB s) UDP_SRC_PORT_L_P of
           Inl e \<Rightarrow> Inl e
         | Inr p \<Rightarrow>
             if (ucast p :: u16) \<noteq> DHCP_SERVER_PORT then Inr False
             else
               (case rd_u32 (gPB s) (UDP_DATA_P + xid_P) of
                  Inl e \<Rightarrow> Inl e
                | Inr x \<Rightarrow>
                    if x \<noteq> currentXid s then Inr False
                    else msg_type_scan (gPB s) (unat len) msgType options_P)))"

subsection \<open>The entry points\<close>

text \<open>\<^verbatim>\<open>char c = b & 0x0f; c += (c <= 9) ? '0' : 'A' - 10;\<close>\<close>

definition toAsciiHex :: "byte \<Rightarrow> byte" where
  "toAsciiHex b = (let c = and b 0x0f in c + (if c \<le> 9 then 48 else 65 - 10))"

text \<open>
  \<^verbatim>\<open>dhcpSetup(hname, fromRam)\<close>; \<open>None\<close> is the null pointer, \<open>Some h\<close> a pointer to the
  text \<open>h\<close>. \<^verbatim>\<open>strncpy_P\<close> copies as \<^verbatim>\<open>strncpy\<close> does, from program memory. An index
  \<^verbatim>\<open>strlen(hostname) - 2\<close> below 0 wraps around and is outside the array.
\<close>

definition set_unique_hostname :: "byte \<Rightarrow> byte list \<Rightarrow> fault + byte list" where
  "set_unique_hostname m h =
     (case strlen h of
        Inl e \<Rightarrow> Inl e
      | Inr n \<Rightarrow>
          if n < 2 then Inl OutOfBounds
          else
            (let h1 = h[n - 2 := toAsciiHex (drop_bit 4 m)] in
             case strlen h1 of
               Inl e \<Rightarrow> Inl e
             | Inr k \<Rightarrow>
                 if k < 1 then Inl OutOfBounds
                 else Inr (h1[k - 1 := toAsciiHex m])))"

definition dhcpSetup :: "byte list option \<Rightarrow> bool \<Rightarrow> ether \<Rightarrow> fault + (bool \<times> ether)" where
  "dhcpSetup hname fromRam s =
     (let s1 = s\<lparr>using_dhcp := True\<rparr> in
      case (case hname of
              Some h \<Rightarrow>
                (if fromRam then strncpy (hostname s1) h DHCP_HOSTNAME_MAX_LEN
                 else strncpy (hostname s1) h DHCP_HOSTNAME_MAX_LEN)
            | None \<Rightarrow> set_unique_hostname (mac5 (mymac s1)) (hostname s1)) of
        Inl e \<Rightarrow> Inl e
      | Inr h' \<Rightarrow> Inr (True, s1\<lparr>hostname := h', dhcpState := DHCP_STATE_INIT\<rparr>))"

definition dhcpRelease :: "ether \<Rightarrow> fault + ether" where
  "dhcpRelease =
     seq [
       (\<lambda>s. Inr (s\<lparr>dhcpState := DHCP_STATE_RELEASING\<rparr>)),
       poke 0 (replicate (UDP_DATA_P + sizeof_DHCPdata) 0),
       udpPrepare DHCP_CLIENT_PORT allOnes_ip DHCP_SERVER_PORT,
       poke ETH_DST_MAC allOnes,
       poke (UDP_DATA_P + op_P) [DHCP_BOOTP_REQUEST],
       poke (UDP_DATA_P + htype_P) [1],
       poke (UDP_DATA_P + hlen_P) [6],
       (\<lambda>s. poke (UDP_DATA_P + xid_P) (u32_bytes (currentXid s)) s),
       (\<lambda>s. poke (UDP_DATA_P + ciaddr_P) (ip_bytes (myip s)) s),
       (\<lambda>s. poke (UDP_DATA_P + chaddr_P) (mac_bytes (mymac s)) s),
       (\<lambda>s. poke (UDP_DATA_P + siaddr_P) (ip_bytes (dhcpip s)) s),
       (\<lambda>s. Inr (s\<lparr>bufPtr := UDP_DATA_P + sizeof_DHCPdata\<rparr>)),
       addBytes cookie,
       addToBuf DHCP_OPT_MESSAGE_TYPE,
       addToBuf 1,
       addToBuf DHCP_RELEASE,
       addToBuf DHCP_OPT_CLIENT_IDENTIFIER,
       addToBuf (1 + ETH_LEN),
       addToBuf DHCP_HTYPE_ETHER,
       (\<lambda>s. addBytes (mac_bytes (mymac s)) s),
       (\<lambda>s. addOption DHCP_OPT_SERVER_IDENTIFIER IP_LEN (ip_bytes (dhcpip s)) s),
       addToBuf DHCP_OPT_END,
       (\<lambda>s. udpTransmit (bufPtr s - UDP_DATA_P) s),
       poke 0 (replicate (UDP_DATA_P + sizeof_DHCPdata) 0),
       (\<lambda>s. Inr (s\<lparr>myip := ip_zero, netmask := ip_zero, broadcastip := ip_zero,
                    gwip := ip_zero, dhcpip := ip_zero, dnsip := ip_zero, hisip := ip_zero\<rparr>)),
       (\<lambda>s. Inr (s\<lparr>dhcpState := DHCP_STATE_RELEASED, using_dhcp := False\<rparr>))
     ]"

definition dhcpAddOptionCallback :: "byte \<Rightarrow> bool \<Rightarrow> ether \<Rightarrow> ether" where
  "dhcpAddOptionCallback option callback s =
     s\<lparr>dhcpCustomOptionNum := option, dhcpCustomOptionCallback := callback\<rparr>"

text \<open>
  \<^verbatim>\<open>DhcpStateMachine(len)\<close>. The clock is outside the code: \<open>t1\<close> and \<open>t2\<close> are what the
  first and the second call of \<^verbatim>\<open>millis()\<close> in this step return (no step makes more
  than two). The differences and comparisons are those of \<^verbatim>\<open>uint32_t\<close>. The
  \<^verbatim>\<open>DEBUG_PRINT\<close> macro expands to nothing, and the second \<^verbatim>\<open>switch\<close> has no case for
  \<^verbatim>\<open>DHCP_STATE_RELEASED\<close>.
\<close>

definition request_timeout :: "u32 \<Rightarrow> ether \<Rightarrow> ether" where
  "request_timeout t1 s =
     (if t1 - stateTimer s > DHCP_REQUEST_TIMEOUT then s\<lparr>dhcpState := DHCP_STATE_INIT\<rparr> else s)"

definition await_ack :: "u16 \<Rightarrow> u32 \<Rightarrow> ether \<Rightarrow> fault + ether" where
  "await_ack len t1 s =
     (case dhcp_received_message_type len DHCP_ACK s of
        Inl e \<Rightarrow> Inl e
      | Inr True \<Rightarrow>
          seq [
            process_dhcp_ack len,
            (\<lambda>s. Inr (s\<lparr>leaseStart := t1\<rparr>)),
            (\<lambda>s. if ip0 (gwip s) \<noteq> 0 then emit (SetGwIp (gwip s)) s else Inr s),
            (\<lambda>s. Inr (s\<lparr>dhcpState := DHCP_STATE_BOUND\<rparr>))
          ] s
      | Inr False \<Rightarrow> Inr (request_timeout t1 s))"

definition DhcpStateMachine :: "u16 \<Rightarrow> u32 \<Rightarrow> u32 \<Rightarrow> ether \<Rightarrow> fault + ether" where
  "DhcpStateMachine len t1 t2 s =
     (case dhcpState s of
        DHCP_STATE_INIT \<Rightarrow>
          seq [
            (\<lambda>s. Inr (s\<lparr>currentXid := t1\<rparr>)),
            (\<lambda>s. Inr (s\<lparr>myip := ip_zero\<rparr>)),
            send_dhcp_message None,
            (\<lambda>s. Inr (s\<lparr>dhcpState := DHCP_STATE_SELECTING\<rparr>)),
            (\<lambda>s. Inr (s\<lparr>stateTimer := t2\<rparr>))
          ] s
      | DHCP_STATE_SELECTING \<Rightarrow>
          (case dhcp_received_message_type len DHCP_OFFER s of
             Inl e \<Rightarrow> Inl e
           | Inr True \<Rightarrow>
              (case process_dhcp_offer len s of
                 Inl e \<Rightarrow> Inl e
               | Inr (offeredip, s1) \<Rightarrow>
                   seq [
                     send_dhcp_message (Some offeredip),
                     (\<lambda>s. Inr (s\<lparr>dhcpState := DHCP_STATE_REQUESTING\<rparr>)),
                     (\<lambda>s. Inr (s\<lparr>stateTimer := t1\<rparr>))
                   ] s1)
           | Inr False \<Rightarrow> Inr (request_timeout t1 s))
      | DHCP_STATE_REQUESTING \<Rightarrow> await_ack len t1 s
      | DHCP_STATE_RENEWING \<Rightarrow> await_ack len t1 s
      | DHCP_STATE_BOUND \<Rightarrow>
          if leaseTime s \<noteq> DHCP_INFINITE_LEASE \<and> t1 - leaseStart s \<ge> leaseTime s
          then
            seq [
              (\<lambda>s. send_dhcp_message (Some (myip s)) s),
              (\<lambda>s. Inr (s\<lparr>dhcpState := DHCP_STATE_RENEWING\<rparr>)),
              (\<lambda>s. Inr (s\<lparr>stateTimer := t2\<rparr>))
            ] s
          else Inr s
      | DHCP_STATE_RELEASING \<Rightarrow> Inr s
      | DHCP_STATE_RELEASED \<Rightarrow> Inr s)"

subsection \<open>Reading what was sent and what is scanned\<close>

text \<open>
  A field of a UDP payload: \<open>n\<close> octets from offset \<open>off\<close>. The options of a payload
  are read as the wire format has them (RFC 2132): a tag, a length, that many octets of
  value, up to the END tag or the end of the octets.
\<close>

definition field :: "nat \<Rightarrow> nat \<Rightarrow> byte list \<Rightarrow> byte list" where
  "field off n payload = take n (drop off payload)"

fun options_of :: "byte list \<Rightarrow> (byte \<times> byte list) list" where
  "options_of (t # l # rest) =
     (if t = DHCP_OPT_END then []
      else (t, take (unat l) rest) # options_of (drop (unat l) rest))"
| "options_of [t] = []"
| "options_of [] = []"

text \<open>
  The two octets of the UDP source port of the frame in the buffer, as one number
  (network byte order).
\<close>

definition udp_src_port :: "byte list \<Rightarrow> u16" where
  "udp_src_port buf =
     push_bit 8 (ucast (buf ! UDP_SRC_PORT_H_P)) + ucast (buf ! UDP_SRC_PORT_L_P)"

text \<open>
  The offsets of the options that the loop of \<^verbatim>\<open>process_dhcp_ack\<close> looks at, in order,
  when it starts at \<open>ptr\<close>: the first one always, the next one while the tag was not END
  and the cursor is below \<open>len\<close>.
\<close>

function scanned_options :: "byte list \<Rightarrow> nat \<Rightarrow> nat \<Rightarrow> nat list" where
  "scanned_options buf len ptr =
     (if ptr + 1 < length buf
      then ptr #
        (if buf ! ptr \<noteq> DHCP_OPT_END \<and> ptr + 2 + unat (buf ! (ptr + 1)) < len
         then scanned_options buf len (ptr + 2 + unat (buf ! (ptr + 1)))
         else [])
      else [])"
  by pat_completeness auto
termination
  by (relation "measure (\<lambda>(buf, len, ptr). len - ptr)") auto

definition is_lease_option :: "byte \<Rightarrow> bool" where
  "is_lease_option t = (t = DHCP_OPT_LEASE_TIME \<or> t = DHCP_OPT_RENEWAL_TIME)"

definition lease_at :: "byte list \<Rightarrow> nat \<Rightarrow> u32" where
  "lease_at buf p = lease_millis (lease_seconds (take 4 (drop (p + 2) buf)))"

definition lease_update :: "byte list \<Rightarrow> u32 \<Rightarrow> nat \<Rightarrow> u32" where
  "lease_update buf l p = (if is_lease_option (buf ! p) then lease_at buf p else l)"

definition callback_of :: "byte list \<Rightarrow> nat \<Rightarrow> event" where
  "callback_of buf p = OptionCallback (buf ! p) (p + 2) (buf ! (p + 1))"

subsection \<open>Example states\<close>

text \<open>
  The statics as the program starts: \<^verbatim>\<open>hostname\<close> holds \<^verbatim>\<open>"Arduino-ENC28j60-00"\<close>, no
  option callback is registered, everything else is zero (so \<^verbatim>\<open>dhcpState\<close> is
  \<^verbatim>\<open>DHCP_STATE_INIT\<close>). The hardware address is that of the spec's scenario,
  AA:BB:CC:DD:EE:FF, and the buffer has 400 octets.
\<close>

definition default_hostname :: "byte list" where
  "default_hostname =
     [0x41, 0x72, 0x64, 0x75, 0x69, 0x6E, 0x6F, 0x2D, 0x45, 0x4E, 0x43, 0x32, 0x38, 0x6A, 0x36,
      0x30, 0x2D, 0x30, 0x30] @ replicate 13 0"

definition boot_state :: ether where
  "boot_state =
     \<lparr>dhcpState = DHCP_STATE_INIT, using_dhcp = False,
      mymac = MacAddr 0xAA 0xBB 0xCC 0xDD 0xEE 0xFF,
      myip = ip_zero, netmask = ip_zero, broadcastip = ip_zero, gwip = ip_zero,
      dhcpip = ip_zero, dnsip = ip_zero, hisip = ip_zero,
      hostname = default_hostname,
      currentXid = 0, stateTimer = 0, leaseStart = 0, leaseTime = 0, bufPtr = 0,
      dhcpCustomOptionNum = 0, dhcpCustomOptionCallback = False,
      gPB = replicate 400 0, trace = []\<rparr>"

text \<open>A client that holds the lease of 192.168.1.50 from the server 192.168.1.1 for an hour.\<close>

definition bound_example :: ether where
  "bound_example =
     boot_state\<lparr>dhcpState := DHCP_STATE_BOUND, using_dhcp := True,
       myip := IpAddr 192 168 1 50, netmask := IpAddr 255 255 255 0,
       gwip := IpAddr 192 168 1 1, dhcpip := IpAddr 192 168 1 1, dnsip := IpAddr 192 168 1 1,
       currentXid := 0x12345678, leaseTime := 3600000\<rparr>"

text \<open>
  Frames of 304 octets in a buffer of 400: the low octet of the UDP source port at 35,
  the transaction id at 46, yiaddr at 58, the options from 282 on.
  \<^item> \<open>frame sport_h xid yi opts\<close> has source port \<open>sport_h * 256 + 67\<close>, transaction id
    \<open>xid\<close> (least significant octet first), yiaddr \<open>yi\<close> and the 22 option octets \<open>opts\<close>.
\<close>

definition frame :: "byte \<Rightarrow> byte list \<Rightarrow> byte list \<Rightarrow> byte list \<Rightarrow> byte list" where
  "frame sport_h xid yi opts =
     replicate 34 0 @ [sport_h, 67] @ replicate 10 0 @ xid @ replicate 8 0 @ yi @
     replicate 220 0 @ opts @ replicate 96 0"

definition offer_options :: "byte list" where
  "offer_options =
     [53, 1, 2, 54, 4, 192, 168, 1, 1, 51, 4, 0, 0, 0x0E, 0x10, 1, 4, 255, 255, 255, 0, 255]"

definition ack_options :: "byte list" where
  "ack_options =
     [53, 1, 5, 1, 4, 255, 255, 255, 0, 3, 4, 192, 168, 1, 1, 51, 4, 0, 0x41, 0x89, 0x38, 255]"

text \<open>
  \<^item> \<open>selecting_example\<close>: in SELECTING since clock 0 with transaction id 10; the buffer
    holds an OFFER for transaction id 11.
  \<^item> \<open>offer_example\<close>: the same, with an OFFER for transaction id 10.
  \<^item> \<open>spoofed_example\<close>: in SELECTING with transaction id 10; the buffer holds an OFFER for
    it whose UDP source port is 323 (0x0143).
  \<^item> \<open>requesting_example\<close>: in REQUESTING with transaction id 10; the buffer holds an ACK
    for it with a lease time of 4294968 seconds. No callback is registered.
  \<^item> \<open>released_example\<close>: after a release.
\<close>

definition selecting_example :: ether where
  "selecting_example =
     boot_state\<lparr>dhcpState := DHCP_STATE_SELECTING, currentXid := 10,
       gPB := frame 0 [11, 0, 0, 0] [192, 168, 1, 50] offer_options\<rparr>"

definition spoofed_example :: ether where
  "spoofed_example =
     boot_state\<lparr>dhcpState := DHCP_STATE_SELECTING, currentXid := 10,
       gPB := frame 1 [10, 0, 0, 0] [192, 168, 1, 50] offer_options\<rparr>"

definition requesting_example :: ether where
  "requesting_example =
     boot_state\<lparr>dhcpState := DHCP_STATE_REQUESTING, currentXid := 10,
       dhcpip := IpAddr 192 168 1 1,
       gPB := frame 0 [10, 0, 0, 0] [192, 168, 1, 50] ack_options\<rparr>"

definition offer_example :: ether where
  "offer_example =
     boot_state\<lparr>dhcpState := DHCP_STATE_SELECTING, currentXid := 10,
       gPB := frame 0 [10, 0, 0, 0] [192, 168, 1, 50] offer_options\<rparr>"

definition released_example :: ether where
  "released_example = boot_state\<lparr>dhcpState := DHCP_STATE_RELEASED\<rparr>"

text \<open>\<open>requesting_example\<close> after \<^verbatim>\<open>dhcpAddOptionCallback(43, callback)\<close>.\<close>

definition ack_example :: ether where
  "ack_example = dhcpAddOptionCallback 43 True requesting_example"

subsection \<open>What the release and the renewal write\<close>

text \<open>
  The option octets that \<^verbatim>\<open>dhcpRelease\<close> writes from offset 278 on, and the buffer at
  its call of \<^verbatim>\<open>udpTransmit\<close>, as the writes leave it.
\<close>

definition release_options :: "ether \<Rightarrow> byte list" where
  "release_options s =
     cookie @ [DHCP_OPT_MESSAGE_TYPE, 1, DHCP_RELEASE] @
     [DHCP_OPT_CLIENT_IDENTIFIER, 7, DHCP_HTYPE_ETHER] @ mac_bytes (mymac s) @
     [DHCP_OPT_SERVER_IDENTIFIER, 4] @ ip_bytes (dhcpip s) @ [DHCP_OPT_END]"

definition release_buffer :: "ether \<Rightarrow> byte list" where
  "release_buffer s =
     put 278 (release_options s)
       (put 62 (ip_bytes (dhcpip s))
         (put 70 (mac_bytes (mymac s))
           (put 54 (ip_bytes (myip s))
             (put 46 (u32_bytes (currentXid s))
               (put 42 [DHCP_BOOTP_REQUEST, 1, 6]
                 (put 0 allOnes
                   (put 0 (replicate 278 0) (gPB s))))))))"

text \<open>The same for the REQUEST that \<open>bound_example\<close> sends when its lease time is over.\<close>

definition renew_options :: "byte list" where
  "renew_options =
     cookie @ [DHCP_OPT_MESSAGE_TYPE, 1, DHCP_REQUEST] @
     [DHCP_OPT_CLIENT_IDENTIFIER, 7, DHCP_HTYPE_ETHER, 0xAA, 0xBB, 0xCC, 0xDD, 0xEE, 0xFF] @
     [DHCP_OPT_HOSTNAME, 19] @ take 19 default_hostname @
     [DHCP_OPT_REQUESTED_ADDRESS, 4, 192, 168, 1, 50] @
     [DHCP_OPT_SERVER_IDENTIFIER, 4, 192, 168, 1, 1] @
     [DHCP_OPT_PARAMETER_REQUEST_LIST, 8, DHCP_OPT_SUBNET_MASK, DHCP_OPT_TIME_OFFSET,
      DHCP_OPT_ROUTERS, DHCP_OPT_TIME_SERVERS, DHCP_OPT_DOMAIN_NAME_SERVERS,
      DHCP_OPT_NTP_SERVERS, DHCP_OPT_DOMAIN_SEARCH_LIST] @
     [DHCP_OPT_END]"

definition renew_buffer :: "byte list" where
  "renew_buffer =
     put 278 renew_options
       (put 70 [0xAA, 0xBB, 0xCC, 0xDD, 0xEE, 0xFF]
         (put 54 [192, 168, 1, 50]
           (put 46 (u32_bytes 0x12345678)
             (put 42 [DHCP_BOOTP_REQUEST, 1, 6]
               (put 0 allOnes
                 (put 0 (replicate 278 0) (replicate 400 0)))))))"

section \<open>Lemmas\<close>

declare msg_type_scan.simps [simp del]
declare ack_loop.simps [simp del]
declare offer_scan.simps [simp del]
declare scanned_options.simps [simp del]

lemmas layout = UDP_DATA_P_def sizeof_DHCPdata_def ETH_DST_MAC_def op_P_def htype_P_def
  hlen_P_def xid_P_def ciaddr_P_def chaddr_P_def siaddr_P_def yiaddr_P_def options_P_def
  UDP_SRC_PORT_L_P_def UDP_SRC_PORT_H_P_def IP_LEN_def ETH_LEN_def

lemmas tags = DHCP_OPT_SUBNET_MASK_def DHCP_OPT_TIME_OFFSET_def DHCP_OPT_ROUTERS_def
  DHCP_OPT_TIME_SERVERS_def DHCP_OPT_DOMAIN_NAME_SERVERS_def DHCP_OPT_HOSTNAME_def
  DHCP_OPT_NTP_SERVERS_def DHCP_OPT_REQUESTED_ADDRESS_def DHCP_OPT_LEASE_TIME_def
  DHCP_OPT_MESSAGE_TYPE_def DHCP_OPT_SERVER_IDENTIFIER_def DHCP_OPT_PARAMETER_REQUEST_LIST_def
  DHCP_OPT_RENEWAL_TIME_def DHCP_OPT_CLIENT_IDENTIFIER_def DHCP_OPT_DOMAIN_SEARCH_LIST_def
  DHCP_OPT_END_def DHCP_HTYPE_ETHER_def DHCP_BOOTP_REQUEST_def DHCP_DISCOVER_def DHCP_OFFER_def
  DHCP_REQUEST_def DHCP_ACK_def DHCP_RELEASE_def DHCP_SERVER_PORT_def DHCP_CLIENT_PORT_def

subsection \<open>Writing into the buffer\<close>

lemma length_put [simp]: "length (put i bs buf) = length buf"
  by (induction bs arbitrary: i buf) simp_all

lemma put_append: "put i (as @ bs) buf = put (i + length as) bs (put i as buf)"
  by (induction as arbitrary: i buf) simp_all

lemma put_merge: "j = i + length as \<Longrightarrow> put j bs (put i as buf) = put i (as @ bs) buf"
  by (simp add: put_append)

lemma put_conv:
  "i + length bs \<le> length buf \<Longrightarrow> put i bs buf = take i buf @ bs @ drop (i + length bs) buf"
proof (induction bs arbitrary: i buf)
  case Nil
  then show ?case by simp
next
  case (Cons b bs)
  from Cons.prems have i: "i < length buf" by simp
  have "put i (b # bs) buf = put (Suc i) bs (buf[i := b])" by simp
  also have "\<dots> = take (Suc i) (buf[i := b]) @ bs @ drop (Suc i + length bs) (buf[i := b])"
    using Cons.prems by (intro Cons.IH) simp
  also have "take (Suc i) (buf[i := b]) = take i buf @ [b]"
    using i by (simp add: take_Suc_conv_app_nth)
  also have "drop (Suc i + length bs) (buf[i := b]) = drop (i + length (b # bs)) buf"
    by simp
  finally show ?case by simp
qed

lemma slice_put_inside:
  "i \<le> j \<Longrightarrow> j + n \<le> i + length bs \<Longrightarrow> i + length bs \<le> length buf \<Longrightarrow>
   take n (drop j (put i bs buf)) = take n (drop (j - i) bs)"
  by (simp add: put_conv)

lemma slice_put_outside:
  "j + n \<le> i \<or> i + length bs \<le> j \<Longrightarrow> i + length bs \<le> length buf \<Longrightarrow>
   take n (drop j (put i bs buf)) = take n (drop j buf)"
proof (elim disjE)
  assume a: "j + n \<le> i" and b: "i + length bs \<le> length buf"
  have "take n (drop j (take i buf)) = take n (drop j buf)"
    using a by (simp add: drop_take min_def)
  with a b show ?thesis by (simp add: put_conv)
next
  assume "i + length bs \<le> j" and "i + length bs \<le> length buf"
  then show ?thesis by (simp add: put_conv)
qed

lemma poke_ok:
  "i + length bs \<le> length (gPB s) \<Longrightarrow> poke i bs s = Inr (s\<lparr>gPB := put i bs (gPB s)\<rparr>)"
  by (simp add: poke_def)

lemma addToBuf_put:
  "bufPtr s < length (gPB s) \<Longrightarrow>
   addToBuf b s = Inr (s\<lparr>gPB := put (bufPtr s) [b] (gPB s), bufPtr := bufPtr s + 1\<rparr>)"
  by (simp add: addToBuf_def)

lemma addBytes_put:
  "bufPtr s + length bs \<le> length (gPB s) \<Longrightarrow>
   addBytes bs s =
     Inr (s\<lparr>gPB := put (bufPtr s) bs (gPB s), bufPtr := bufPtr s + length bs\<rparr>)"
proof (induction bs arbitrary: s)
  case Nil
  then show ?case by simp
next
  case (Cons b bs)
  then show ?case by (simp add: addToBuf_def)
qed

lemmas run_simps = poke_ok udpPrepare_def emit_def allOnes_def udpTransmit_def
  addBytes_put addToBuf_put addOption_def cookie_def put_merge

lemma length_u32_bytes [simp]: "length (u32_bytes w) = 4"
  by (simp add: u32_bytes_def)

lemma length_ip_bytes [simp]: "length (ip_bytes a) = 4"
  by (cases a) simp

lemma length_mac_bytes [simp]: "length (mac_bytes a) = 6"
  by (cases a) simp

subsection \<open>Frames in the buffer\<close>

lemma no_frame: "len < 70 \<Longrightarrow> dhcp_received_message_type len K s = Inr False"
  by (simp add: dhcp_received_message_type_def not_le)

lemma xid_mismatch:
  assumes "rd_u32 (gPB s) (UDP_DATA_P + xid_P) = Inr x" and "x \<noteq> currentXid s"
  shows "dhcp_received_message_type len K s = Inr False"
proof -
  from assms(1) have "UDP_DATA_P + xid_P + 4 \<le> length (gPB s)"
    by (simp add: rd_u32_def split: if_splits)
  then have "UDP_SRC_PORT_L_P < length (gPB s)"
    by (simp add: layout)
  then have "rd (gPB s) UDP_SRC_PORT_L_P = Inr (gPB s ! UDP_SRC_PORT_L_P)"
    by (simp add: rd_def)
  with assms show ?thesis
    by (simp add: dhcp_received_message_type_def)
qed

lemma frame_xid:
  "rd_u32 (frame h [x0, x1, x2, x3] yi opts) (UDP_DATA_P + xid_P) = Inr (u32_of x0 x1 x2 x3)"
  by (simp add: rd_u32_def frame_def layout nth_append)

lemma frame_sport:
  "rd (frame h xid yi opts) UDP_SRC_PORT_L_P = Inr 67"
  by (simp add: rd_def frame_def layout nth_append)

lemma selecting_example_xid:
  "rd_u32 (gPB selecting_example) (UDP_DATA_P + xid_P) = Inr 11"
  by (simp add: selecting_example_def frame_xid u32_of_def)

lemma default_hostname_strlen: "strlen default_hostname = Inr 19"
  by (simp add: strlen_def default_hostname_def)

lemma default_hostname_first: "rd default_hostname 0 = Inr 0x41"
  by (simp add: rd_def default_hostname_def)

text \<open>The first step of a client that starts at clock 0: a DISCOVER goes out.\<close>

lemma boot_discover:
  "\<exists>s1. DhcpStateMachine 0 0 0 boot_state = Inr s1 \<and>
        dhcpState s1 = DHCP_STATE_SELECTING \<and> stateTimer s1 = 0"
  by (simp add: DhcpStateMachine_def boot_state_def send_dhcp_message_def layout run_simps
      default_hostname_strlen default_hostname_first del: put.simps)

subsection \<open>The scan for the message type\<close>

lemma msg_type_scan_found:
  "msg_type_scan buf len K ptr = Inr True \<Longrightarrow>
   \<exists>p\<ge>ptr. rd buf p = Inr DHCP_OPT_MESSAGE_TYPE \<and> rd buf (p + 2) = Inr K"
proof (induction buf len K ptr rule: msg_type_scan.induct)
  case (1 buf len msgType ptr)
  from "1.prems" obtain option optionLen where
    o: "rd buf ptr = Inr option" and l: "rd buf (ptr + 1) = Inr optionLen"
    by (subst (asm) msg_type_scan.simps) (auto split: sum.splits)
  show ?case
  proof (cases "option = DHCP_OPT_MESSAGE_TYPE \<and> rd buf (ptr + 2) = Inr msgType")
    case True
    with o show ?thesis by auto
  next
    case False
    with "1.prems" o l have
      more: "ptr + 2 + unat optionLen < len"
      and rec: "msg_type_scan buf len msgType (ptr + 2 + unat optionLen) = Inr True"
      by (subst (asm) msg_type_scan.simps, auto split: sum.splits if_splits)+
    obtain v where v: "(if option = DHCP_OPT_MESSAGE_TYPE then rd buf (ptr + 2) else Inr 0) = Inr v"
      using "1.prems" o l by (subst (asm) msg_type_scan.simps) (auto split: sum.splits)
    have "\<not> (option = DHCP_OPT_MESSAGE_TYPE \<and> v = msgType)"
      using False v by auto
    from "1.IH" [OF o l v this more rec] obtain p where
      "p \<ge> ptr + 2 + unat optionLen" "rd buf p = Inr DHCP_OPT_MESSAGE_TYPE"
      "rd buf (p + 2) = Inr msgType"
      by auto
    then show ?thesis by (intro exI [of _ p]) simp
  qed
qed

lemma ucast_port: "(ucast (p :: byte) :: u16) = DHCP_SERVER_PORT \<longleftrightarrow> p = 67"
proof
  assume "(ucast p :: u16) = DHCP_SERVER_PORT"
  then have "unat (ucast p :: u16) = 67" by (simp add: DHCP_SERVER_PORT_def)
  then have "unat p = 67"
    by (simp add: unsigned_ucast_eq take_bit_nat_eq_self_iff [THEN iffD2]
        order_less_trans [OF unsigned_less])
  then show "p = 67" by (simp add: word_unat_eq_iff)
next
  assume "p = 67"
  then show "(ucast p :: u16) = DHCP_SERVER_PORT" by (simp add: DHCP_SERVER_PORT_def)
qed

lemma frame_nth_opts:
  "length xid = 4 \<Longrightarrow> length yi = 4 \<Longrightarrow> k < length opts \<Longrightarrow>
   rd (frame h xid yi opts) (282 + k) = Inr (opts ! k)"
  by (simp add: rd_def frame_def nth_append)

lemma offer_scan_example:
  "length xid = 4 \<Longrightarrow> length yi = 4 \<Longrightarrow>
   msg_type_scan (frame h xid yi offer_options) 304 DHCP_OFFER options_P = Inr True"
  using frame_nth_opts [of xid yi 0 offer_options h] frame_nth_opts [of xid yi 1 offer_options h]
    frame_nth_opts [of xid yi 2 offer_options h]
  by (subst msg_type_scan.simps) (simp add: layout offer_options_def tags)

lemma ack_scan_example:
  "msg_type_scan (frame h [x0, x1, x2, x3] [y0, y1, y2, y3] ack_options) 304 DHCP_ACK options_P
     = Inr True"
  by (subst msg_type_scan.simps)
    (simp add: layout ack_options_def tags rd_def frame_def nth_append)

subsection \<open>The lease time\<close>

lemma unat_ucast_byte: "unat (ucast (b :: byte) :: u32) = unat b"
  by (simp add: unsigned_ucast_eq take_bit_nat_eq_self_iff [THEN iffD2]
      order_less_trans [OF unsigned_less])

lemma unat_byte_less: "unat (b :: byte) < 256"
  using unsigned_less [of b, where ?'a = nat] by simp

lemma lease_seconds_big_endian:
  "unat (lease_seconds [b0, b1, b2, b3]) =
     unat b0 * 2 ^ 24 + unat b1 * 2 ^ 16 + unat b2 * 2 ^ 8 + unat b3"
proof -
  have "unat (lease_seconds [b0, b1, b2, b3]) =
        (((unat b0 * 256 + unat b1) * 256 + unat b2) * 256 + unat b3) mod 2 ^ 32"
    unfolding lease_seconds_def
    by (simp add: push_bit_eq_mult unat_word_ariths unat_ucast_byte mod_simps)
  also have "\<dots> = ((unat b0 * 256 + unat b1) * 256 + unat b2) * 256 + unat b3"
    using unat_byte_less [of b0] unat_byte_less [of b1] unat_byte_less [of b2]
      unat_byte_less [of b3]
    by simp
  finally show ?thesis by simp
qed

lemma lease_seconds_infinite:
  "lease_seconds [b0, b1, b2, b3] = DHCP_INFINITE_LEASE \<longleftrightarrow>
     b0 = 0xFF \<and> b1 = 0xFF \<and> b2 = 0xFF \<and> b3 = 0xFF"
proof -
  have "lease_seconds [b0, b1, b2, b3] = DHCP_INFINITE_LEASE \<longleftrightarrow>
        unat (lease_seconds [b0, b1, b2, b3]) = unat DHCP_INFINITE_LEASE"
    by (simp add: word_unat_eq_iff)
  also have "\<dots> \<longleftrightarrow>
      unat b0 * 2 ^ 24 + unat b1 * 2 ^ 16 + unat b2 * 2 ^ 8 + unat b3 = 4294967295"
    by (simp add: lease_seconds_big_endian DHCP_INFINITE_LEASE_def)
  also have "\<dots> \<longleftrightarrow> unat b0 = 255 \<and> unat b1 = 255 \<and> unat b2 = 255 \<and> unat b3 = 255"
  proof -
    have "unat b0 * 16777216 + unat b1 * 65536 + unat b2 * 256 + unat b3 = 4294967295 \<longleftrightarrow>
          unat b0 = 255 \<and> unat b1 = 255 \<and> unat b2 = 255 \<and> unat b3 = 255"
      using unat_byte_less [of b0] unat_byte_less [of b1] unat_byte_less [of b2]
        unat_byte_less [of b3]
      by arith
    then show ?thesis by simp
  qed
  also have "\<dots> \<longleftrightarrow> b0 = 0xFF \<and> b1 = 0xFF \<and> b2 = 0xFF \<and> b3 = 0xFF"
    by (simp add: word_unat_eq_iff)
  finally show ?thesis .
qed

lemma lease_millis_finite:
  "v \<noteq> DHCP_INFINITE_LEASE \<Longrightarrow> unat (lease_millis v) = (unat v * 1000) mod 2 ^ 32"
  by (simp add: lease_millis_def unat_word_ariths)

lemma lease_millis_not_infinite:
  assumes "v \<noteq> DHCP_INFINITE_LEASE"
  shows "lease_millis v \<noteq> DHCP_INFINITE_LEASE"
proof
  assume "lease_millis v = DHCP_INFINITE_LEASE"
  moreover from assms have "even (lease_millis v)"
    by (simp add: lease_millis_def)
  ultimately have "even DHCP_INFINITE_LEASE" by simp
  then show False by (simp add: DHCP_INFINITE_LEASE_def)
qed

subsection \<open>The loop over the options of an ACK\<close>

lemma ack_option_effect:
  assumes "ack_option t ptr s = Inr (d, s1)"
  shows "gPB s1 = gPB s" and "trace s1 = trace s"
    and "dhcpCustomOptionCallback s1 = dhcpCustomOptionCallback s"
    and "d = (t = DHCP_OPT_END)"
    and "leaseTime s1 =
           (if is_lease_option t then lease_millis (lease_seconds (take 4 (drop ptr (gPB s))))
            else leaseTime s)"
  using assms
  by (auto simp: ack_option_def is_lease_option_def rd_ip_def rd_bytes_def tags
      split: if_splits sum.splits)

lemma call_callback_effect:
  assumes "call_callback t ptr l s = Inr s1"
  shows "dhcpCustomOptionCallback s" and "s1 = s\<lparr>trace := trace s @ [OptionCallback t ptr l]\<rparr>"
  using assms by (auto simp: call_callback_def emit_def split: if_splits)

lemma ack_loop_effect:
  "ack_loop len ptr s = Inr s' \<Longrightarrow>
   dhcpCustomOptionCallback s \<and>
   gPB s' = gPB s \<and>
   leaseTime s' = foldl (lease_update (gPB s)) (leaseTime s) (scanned_options (gPB s) len ptr) \<and>
   trace s' = trace s @ map (callback_of (gPB s)) (scanned_options (gPB s) len ptr)"
proof (induction len ptr s rule: ack_loop.induct)
  case (1 len ptr s)
  from "1.prems" obtain t l d s1 s2 where
    t: "rd (gPB s) ptr = Inr t" and l: "rd (gPB s) (ptr + 1) = Inr l"
    and a: "ack_option t (ptr + 2) s = Inr (d, s1)"
    and c: "call_callback t (ptr + 2) l s1 = Inr s2"
    by (subst (asm) ack_loop.simps) (auto split: sum.splits prod.splits)
  from t l have inb: "ptr + 1 < length (gPB s)"
    and tv: "t = gPB s ! ptr" and lv: "l = gPB s ! (ptr + 1)"
    by (auto simp: rd_def split: if_splits)
  note ae = ack_option_effect [OF a]
  note ce = call_callback_effect [OF c]
  have cb: "dhcpCustomOptionCallback s" using ae ce by simp
  have g2: "gPB s2 = gPB s" using ae ce by simp
  have lt2: "leaseTime s2 = lease_update (gPB s) (leaseTime s) ptr"
    using ae ce tv by (simp add: lease_update_def lease_at_def)
  have tr2: "trace s2 = trace s @ [callback_of (gPB s) ptr]"
    using ae ce tv lv by (simp add: callback_of_def)
  show ?case
  proof (cases "\<not> d \<and> ptr + 2 + unat l < len")
    case True
    with "1.prems" t l a c have rec: "ack_loop len (ptr + 2 + unat l) s2 = Inr s'"
      by (subst (asm) ack_loop.simps) simp
    have a': "(d, s1) = (d, s1)" by simp
    from "1.IH" [OF t l a a' c True rec] g2 lt2 tr2
    have "gPB s' = gPB s"
      and "leaseTime s' = foldl (lease_update (gPB s)) (lease_update (gPB s) (leaseTime s) ptr)
             (scanned_options (gPB s) len (ptr + 2 + unat l))"
      and "trace s' = trace s @ callback_of (gPB s) ptr #
             map (callback_of (gPB s)) (scanned_options (gPB s) len (ptr + 2 + unat l))"
      by simp_all
    moreover have "scanned_options (gPB s) len ptr =
        ptr # scanned_options (gPB s) len (ptr + 2 + unat l)"
      using True inb ae(4) tv lv by (subst scanned_options.simps) simp
    ultimately show ?thesis using cb by simp
  next
    case False
    with "1.prems" t l a c have "s' = s2"
      by (subst (asm) ack_loop.simps) (simp split: if_splits)
    moreover have "scanned_options (gPB s) len ptr = [ptr]"
      using False inb ae(4) tv lv by (subst scanned_options.simps) auto
    ultimately show ?thesis using g2 lt2 tr2 cb by simp
  qed
qed

lemma process_dhcp_ack_effect:
  assumes "process_dhcp_ack len s = Inr s'"
  shows "dhcpCustomOptionCallback s"
    and "leaseTime s' =
           foldl (lease_update (gPB s)) (leaseTime s) (scanned_options (gPB s) (unat len) options_P)"
    and "trace s' =
           trace s @ map (callback_of (gPB s)) (scanned_options (gPB s) (unat len) options_P)"
proof -
  from assms obtain ip where "ack_loop (unat len) options_P (s\<lparr>myip := ip\<rparr>) = Inr s'"
    by (auto simp: process_dhcp_ack_def split: sum.splits)
  from ack_loop_effect [OF this]
  show "dhcpCustomOptionCallback s"
    and "leaseTime s' =
           foldl (lease_update (gPB s)) (leaseTime s) (scanned_options (gPB s) (unat len) options_P)"
    and "trace s' =
           trace s @ map (callback_of (gPB s)) (scanned_options (gPB s) (unat len) options_P)"
    by simp_all
qed

lemma foldl_lease_last:
  "filter (\<lambda>q. is_lease_option (buf ! q)) xs = qs @ [p] \<Longrightarrow>
   foldl (lease_update buf) l xs = lease_at buf p"
proof (induction xs arbitrary: qs rule: rev_induct)
  case Nil
  then show ?case by simp
next
  case (snoc y ys)
  show ?case
  proof (cases "is_lease_option (buf ! y)")
    case True
    with snoc.prems have "p = y" by simp
    with True show ?thesis by (simp add: lease_update_def)
  next
    case False
    with snoc.prems have "filter (\<lambda>q. is_lease_option (buf ! q)) ys = qs @ [p]" by simp
    from snoc.IH [OF this] False show ?thesis by (simp add: lease_update_def)
  qed
qed

text \<open>
  With a callback registered the loop returns, when the buffer holds the six octets from
  the first option on and five octets past the frame length: at a cursor below the length
  the loop reads the tag, the length and up to four octets of value.
\<close>

lemma ack_option_returns:
  "ptr + 4 \<le> length (gPB s) \<Longrightarrow> \<exists>d s1. ack_option t ptr s = Inr (d, s1)"
  by (auto simp: ack_option_def rd_ip_def rd_bytes_def)

lemma ack_loop_returns:
  "dhcpCustomOptionCallback s \<Longrightarrow> ptr + 6 \<le> length (gPB s) \<Longrightarrow>
   len + 5 \<le> length (gPB s) \<Longrightarrow> \<exists>s'. ack_loop len ptr s = Inr s'"
proof (induction len ptr s rule: ack_loop.induct)
  case (1 len ptr s)
  from "1.prems"(2) have t: "rd (gPB s) ptr = Inr (gPB s ! ptr)"
    and l: "rd (gPB s) (ptr + 1) = Inr (gPB s ! (ptr + 1))"
    by (simp_all add: rd_def)
  let ?t = "gPB s ! ptr" and ?l = "gPB s ! (ptr + 1)"
  from "1.prems"(2) obtain d s1 where a: "ack_option ?t (ptr + 2) s = Inr (d, s1)"
    using ack_option_returns [of "ptr + 2" s ?t] by auto
  note ae = ack_option_effect [OF a]
  let ?s2 = "s1\<lparr>trace := trace s1 @ [OptionCallback ?t (ptr + 2) ?l]\<rparr>"
  have c: "call_callback ?t (ptr + 2) ?l s1 = Inr ?s2"
    using ae(3) "1.prems"(1) by (simp add: call_callback_def emit_def)
  show ?case
  proof (cases "\<not> d \<and> ptr + 2 + unat ?l < len")
    case True
    have a': "(d, s1) = (d, s1)" by simp
    have cb: "dhcpCustomOptionCallback ?s2" using ae(3) "1.prems"(1) by simp
    have r1: "ptr + 2 + unat ?l + 6 \<le> length (gPB ?s2)"
      using True "1.prems"(3) ae(1) by simp
    have r2: "len + 5 \<le> length (gPB ?s2)"
      using "1.prems"(3) ae(1) by simp
    from "1.IH" [OF t l a a' c True cb r1 r2] obtain s' where
      "ack_loop len (ptr + 2 + unat ?l) ?s2 = Inr s'" by blast
    with t l a c True have "ack_loop len ptr s = Inr s'"
      by (subst ack_loop.simps) simp
    then show ?thesis by blast
  next
    case False
    with t l a c have "ack_loop len ptr s = Inr ?s2"
      by (subst ack_loop.simps) auto
    then show ?thesis by blast
  qed
qed

lemma process_dhcp_ack_returns:
  assumes "dhcpCustomOptionCallback s"
    and "options_P + 6 \<le> length (gPB s)" and "unat len + 5 \<le> length (gPB s)"
  shows "\<exists>s'. process_dhcp_ack len s = Inr s'"
proof -
  from assms(2) have "rd_ip (gPB s) (UDP_DATA_P + yiaddr_P) =
      Inr (IpAddr (gPB s ! 58) (gPB s ! 59) (gPB s ! 60) (gPB s ! 61))"
    by (simp add: rd_ip_def layout)
  moreover have "\<exists>s'. ack_loop (unat len) options_P (s\<lparr>myip := ip\<rparr>) = Inr s'" for ip
    using assms by (intro ack_loop_returns) simp_all
  ultimately show ?thesis by (simp add: process_dhcp_ack_def)
qed

lemma ack_example_scanned:
  "scanned_options (gPB ack_example) (unat (304 :: u16)) options_P = [282, 285, 291, 297, 303]"
  by (simp add: ack_example_def dhcpAddOptionCallback_def requesting_example_def
      scanned_options.simps frame_def ack_options_def nth_append layout tags)

subsection \<open>The messages of the release and of the renewal\<close>

lemma dhcpRelease_run:
  assumes "301 \<le> length (gPB s)"
  shows "dhcpRelease s =
     Inr (s\<lparr>bufPtr := 301,
            trace := trace s @
              [UdpPrepare DHCP_CLIENT_PORT allOnes_ip DHCP_SERVER_PORT,
               UdpTransmit DHCP_STATE_RELEASING (take 259 (drop 42 (release_buffer s)))],
            gPB := put 0 (replicate 278 0) (release_buffer s),
            myip := ip_zero, netmask := ip_zero, broadcastip := ip_zero,
            gwip := ip_zero, dhcpip := ip_zero, dnsip := ip_zero,
            hisip := ip_zero, dhcpState := DHCP_STATE_RELEASED,
            using_dhcp := False\<rparr>)"
  using assms
  by (simp add: dhcpRelease_def layout run_simps release_buffer_def release_options_def
      del: put.simps)

lemma release_buffer_fields:
  assumes "301 \<le> length (gPB s)"
  shows "take 4 (drop 54 (release_buffer s)) = ip_bytes (myip s)"
    and "take 4 (drop 62 (release_buffer s)) = ip_bytes (dhcpip s)"
    and "take 4 (drop 46 (release_buffer s)) = u32_bytes (currentXid s)"
    and "take 23 (drop 278 (release_buffer s)) = release_options s"
  using assms
  by (simp_all add: release_buffer_def release_options_def cookie_def allOnes_def
      slice_put_inside slice_put_outside del: put.simps)

lemma release_options_decoded:
  "options_of (drop 4 (release_options s)) =
     [(DHCP_OPT_MESSAGE_TYPE, [DHCP_RELEASE]),
      (DHCP_OPT_CLIENT_IDENTIFIER, DHCP_HTYPE_ETHER # mac_bytes (mymac s)),
      (DHCP_OPT_SERVER_IDENTIFIER, ip_bytes (dhcpip s))]"
  by (cases "mymac s"; cases "dhcpip s") (simp add: release_options_def cookie_def tags)

lemma default_hostname_length [simp]: "length default_hostname = 32"
  by (simp add: default_hostname_def)

lemma renew_options_length [simp]: "length renew_options = 59"
  by (simp add: renew_options_def cookie_def)

lemma renew_run:
  "DhcpStateMachine 0 3600000 3600000 bound_example =
     Inr (bound_example\<lparr>bufPtr := 337, gPB := renew_buffer,
            trace := [UdpPrepare DHCP_CLIENT_PORT (IpAddr 192 168 1 1) DHCP_SERVER_PORT,
                      UdpTransmit DHCP_STATE_BOUND (take 295 (drop 42 renew_buffer))],
            dhcpState := DHCP_STATE_RENEWING, stateTimer := 3600000\<rparr>)"
  by (simp add: DhcpStateMachine_def bound_example_def boot_state_def send_dhcp_message_def
      DHCP_INFINITE_LEASE_def layout run_simps default_hostname_strlen default_hostname_first
      renew_buffer_def renew_options_def del: put.simps)

lemma renew_options_decoded:
  "options_of (drop 4 renew_options) =
     [(DHCP_OPT_MESSAGE_TYPE, [DHCP_REQUEST]),
      (DHCP_OPT_CLIENT_IDENTIFIER, [DHCP_HTYPE_ETHER, 0xAA, 0xBB, 0xCC, 0xDD, 0xEE, 0xFF]),
      (DHCP_OPT_HOSTNAME, take 19 default_hostname),
      (DHCP_OPT_REQUESTED_ADDRESS, [192, 168, 1, 50]),
      (DHCP_OPT_SERVER_IDENTIFIER, [192, 168, 1, 1]),
      (DHCP_OPT_PARAMETER_REQUEST_LIST, [1, 2, 3, 4, 6, 42, 119, 255])]"
  by (simp add: renew_options_def cookie_def default_hostname_def tags)

section \<open>The claims\<close>

subsection \<open>C1: the setup call\<close>

text \<open>
  Whatever the arguments and the state are, a call of \<^verbatim>\<open>dhcpSetup\<close> that returns has
  set \<^verbatim>\<open>dhcpState\<close> to INIT, has sent nothing, and returns true.
\<close>

lemma dhcpSetup_result:
  assumes "dhcpSetup hname fromRam s = Inr (r, s')"
  shows "r" and "dhcpState s' = DHCP_STATE_INIT" and "trace s' = trace s"
  using assms by (auto simp: dhcpSetup_def Let_def split: sum.splits)

text \<open>
  C1 fails on the code. The claim: the lease-acquisition entry point returns only after
  the session has reached BOUND or after 60 seconds, and returns true if and only if BOUND
  was reached; with no network traffic it returns failure. The code: on the client as it
  starts, \<^verbatim>\<open>dhcpSetup(NULL)\<close> writes the last octet of the hardware address into the host
  name, sets the state to INIT and returns true at once; no step of the state machine has
  run, nothing was sent, and the state is not BOUND.
\<close>

theorem dhcpSetup_returns_at_once:
  "dhcpSetup None False boot_state =
     Inr (True, boot_state\<lparr>using_dhcp := True,
            hostname := [0x41, 0x72, 0x64, 0x75, 0x69, 0x6E, 0x6F, 0x2D, 0x45, 0x4E, 0x43, 0x32,
                         0x38, 0x6A, 0x36, 0x30, 0x2D, 0x46, 0x46] @ replicate 13 0,
            dhcpState := DHCP_STATE_INIT\<rparr>) \<and>
   DHCP_STATE_INIT \<noteq> DHCP_STATE_BOUND \<and>
   trace (boot_state\<lparr>using_dhcp := True,
            hostname := [0x41, 0x72, 0x64, 0x75, 0x69, 0x6E, 0x6F, 0x2D, 0x45, 0x4E, 0x43, 0x32,
                         0x38, 0x6A, 0x36, 0x30, 0x2D, 0x46, 0x46] @ replicate 13 0,
            dhcpState := DHCP_STATE_INIT\<rparr>) = []"
  by (simp add: dhcpSetup_def boot_state_def set_unique_hostname_def strlen_def
      default_hostname_def toAsciiHex_def)

subsection \<open>C2: the option callback\<close>

text \<open>
  When \<^verbatim>\<open>process_dhcp_ack\<close> returns, a callback is registered and it has been called once
  for each option the loop looked at, in order, with the option's tag, the place of its
  value and its length; when no callback is registered, \<^verbatim>\<open>process_dhcp_ack\<close> does not
  return.
\<close>

lemma ack_callbacks_once_each:
  assumes "process_dhcp_ack len s = Inr s'"
  shows "dhcpCustomOptionCallback s \<and>
         trace s' =
           trace s @ map (callback_of (gPB s)) (scanned_options (gPB s) (unat len) options_P)"
  using process_dhcp_ack_effect(1,3) [OF assms] by simp

lemma ack_needs_callback:
  assumes "\<not> dhcpCustomOptionCallback s"
  shows "\<exists>e. process_dhcp_ack len s = Inl e"
proof (cases "process_dhcp_ack len s")
  case (Inl e)
  then show ?thesis by blast
next
  case (Inr s')
  with process_dhcp_ack_effect(1) [OF Inr] assms show ?thesis by simp
qed

text \<open>
  With a callback registered, the ACK of \<open>requesting_example\<close> takes the session to BOUND:
  the callback is called for the options 53, 1, 3, 51 and for the END tag, once each.
\<close>

lemma ack_reaches_bound:
  "\<exists>s'. DhcpStateMachine 304 5000 5000 ack_example = Inr s' \<and>
        dhcpState s' = DHCP_STATE_BOUND \<and>
        myip s' = IpAddr 192 168 1 50 \<and> netmask s' = IpAddr 255 255 255 0 \<and>
        gwip s' = IpAddr 192 168 1 1 \<and> leaseStart s' = 5000 \<and> leaseTime s' = 704 \<and>
        trace s' =
          [OptionCallback 53 284 1, OptionCallback 1 287 4, OptionCallback 3 293 4,
           OptionCallback 51 299 4, OptionCallback 255 305 0, SetGwIp (IpAddr 192 168 1 1)]"
proof -
  have g: "gPB ack_example = frame 0 [10, 0, 0, 0] [192, 168, 1, 50] ack_options"
    and c: "currentXid ack_example = 10" and d: "dhcpState ack_example = DHCP_STATE_REQUESTING"
    by (simp_all add: ack_example_def dhcpAddOptionCallback_def requesting_example_def)
  have r: "dhcp_received_message_type 304 DHCP_ACK ack_example = Inr True"
    by (simp add: dhcp_received_message_type_def g c frame_sport frame_xid
        u32_of_def ack_scan_example DHCP_SERVER_PORT_def)
  show ?thesis
    by (simp add: DhcpStateMachine_def d await_ack_def r)
      (simp add: ack_example_def dhcpAddOptionCallback_def requesting_example_def
        process_dhcp_ack_def ack_loop.simps ack_option_def call_callback_def emit_def
        rd_def rd_ip_def rd_bytes_def frame_def ack_options_def nth_append layout tags
        boot_state_def lease_millis_def lease_seconds_def DHCP_INFINITE_LEASE_def)
qed

text \<open>
  C2 fails on the code. The claim: the registered callback is invoked exactly once per
  option of a valid ACK, after the built-in effect, and is not invoked at all when no
  callback is registered. The code: in REQUESTING with no callback registered, on a valid
  ACK (304 octets, source port 67, the session's transaction id, message type ACK), the
  step calls through the null pointer at the first option: the run ends in the fault
  \<open>NullCall\<close>, and the session does not reach BOUND.
\<close>

theorem ack_without_callback_faults:
  "dhcpState requesting_example = DHCP_STATE_REQUESTING \<and>
   dhcp_received_message_type 304 DHCP_ACK requesting_example = Inr True \<and>
   \<not> dhcpCustomOptionCallback requesting_example \<and>
   process_dhcp_ack 304 requesting_example = Inl NullCall \<and>
   DhcpStateMachine 304 5000 5000 requesting_example = Inl NullCall"
proof -
  have d: "dhcpState requesting_example = DHCP_STATE_REQUESTING"
    by (simp add: requesting_example_def)
  have n: "\<not> dhcpCustomOptionCallback requesting_example"
    by (simp add: requesting_example_def boot_state_def)
  have r: "dhcp_received_message_type 304 DHCP_ACK requesting_example = Inr True"
    by (simp add: dhcp_received_message_type_def requesting_example_def frame_sport frame_xid
        u32_of_def ack_scan_example DHCP_SERVER_PORT_def)
  have p: "process_dhcp_ack 304 requesting_example = Inl NullCall"
    by (simp add: requesting_example_def process_dhcp_ack_def ack_loop.simps ack_option_def
        call_callback_def rd_def rd_ip_def rd_bytes_def frame_def ack_options_def nth_append
        layout tags boot_state_def)
  have "DhcpStateMachine 304 5000 5000 requesting_example = Inl NullCall"
    by (simp add: DhcpStateMachine_def d await_ack_def r p)
  with d n r p show ?thesis by simp
qed

subsection \<open>C3: the renewal request\<close>

text \<open>
  C3 fails on the code. The claim: the REQUEST of a renewal has ciaddr filled with the
  current address and carries neither option 50 nor option 54 (so says the table in
  dhcp.cpp, too). The code: the client that holds 192.168.1.50 from 192.168.1.1 for
  3600000 ms since clock 0 takes a step at clock 3600000. It goes to RENEWING and sends
  one message, in state BOUND, whose ciaddr is 192.168.1.50 and whose options are, in
  order, 53, 61, 12, 50, 54, 55: the requested address 192.168.1.50 and the server
  identifier 192.168.1.1 are among them.
\<close>

theorem renewal_request_has_options_50_and_54:
  "\<exists>s' payload.
     dhcpState bound_example = DHCP_STATE_BOUND \<and>
     DhcpStateMachine 0 3600000 3600000 bound_example = Inr s' \<and>
     dhcpState s' = DHCP_STATE_RENEWING \<and>
     trace s' = [UdpPrepare DHCP_CLIENT_PORT (IpAddr 192 168 1 1) DHCP_SERVER_PORT,
                 UdpTransmit DHCP_STATE_BOUND payload] \<and>
     field ciaddr_P 4 payload = ip_bytes (myip bound_example) \<and>
     map fst (options_of (drop (sizeof_DHCPdata + 4) payload)) =
       [DHCP_OPT_MESSAGE_TYPE, DHCP_OPT_CLIENT_IDENTIFIER, DHCP_OPT_HOSTNAME,
        DHCP_OPT_REQUESTED_ADDRESS, DHCP_OPT_SERVER_IDENTIFIER,
        DHCP_OPT_PARAMETER_REQUEST_LIST] \<and>
     (DHCP_OPT_REQUESTED_ADDRESS, [192, 168, 1, 50]) \<in>
       set (options_of (drop (sizeof_DHCPdata + 4) payload)) \<and>
     (DHCP_OPT_SERVER_IDENTIFIER, [192, 168, 1, 1]) \<in>
       set (options_of (drop (sizeof_DHCPdata + 4) payload))"
proof -
  let ?payload = "take 295 (drop 42 renew_buffer)"
  let ?s' = "bound_example\<lparr>bufPtr := 337, gPB := renew_buffer,
            trace := [UdpPrepare DHCP_CLIENT_PORT (IpAddr 192 168 1 1) DHCP_SERVER_PORT,
                      UdpTransmit DHCP_STATE_BOUND ?payload],
            dhcpState := DHCP_STATE_RENEWING, stateTimer := 3600000\<rparr>"
  have c: "field ciaddr_P 4 ?payload = ip_bytes (myip bound_example)"
    by (simp add: field_def layout drop_take renew_buffer_def allOnes_def bound_example_def
        slice_put_inside slice_put_outside del: put.simps)
  have "drop (sizeof_DHCPdata + 4) ?payload = drop 4 (take 59 (drop 278 renew_buffer))"
    by (simp add: layout drop_take)
  also have "take 59 (drop 278 renew_buffer) = renew_options"
    by (simp add: renew_buffer_def allOnes_def slice_put_inside del: put.simps)
  finally have o: "options_of (drop (sizeof_DHCPdata + 4) ?payload) =
      options_of (drop 4 renew_options)"
    by simp
  have b: "dhcpState bound_example = DHCP_STATE_BOUND"
    by (simp add: bound_example_def)
  show ?thesis
    using renew_run b c
    by (intro exI [of _ ?s'] exI [of _ ?payload]) (simp add: o renew_options_decoded)
qed

subsection \<open>C4: which frames are accepted\<close>

text \<open>
  C4, as the code has it. A frame is accepted as a message of kind \<open>K\<close> exactly when its
  length is at least 70, the low octet of its UDP source port is 67 (the high octet is not
  looked at), its transaction id is \<^verbatim>\<open>currentXid\<close>, and the scan of the options, run only
  then, finds a Message Type option whose value is \<open>K\<close>; a frame that fails one of the
  three checks is not accepted.
\<close>

theorem received_message_type_checks:
  "(dhcp_received_message_type len K s = Inr True \<longleftrightarrow>
      70 \<le> len \<and>
      rd (gPB s) UDP_SRC_PORT_L_P = Inr 67 \<and>
      rd_u32 (gPB s) (UDP_DATA_P + xid_P) = Inr (currentXid s) \<and>
      msg_type_scan (gPB s) (unat len) K options_P = Inr True) \<and>
   (dhcp_received_message_type len K s = Inr True \<longrightarrow>
      (\<exists>p\<ge>options_P. rd (gPB s) p = Inr DHCP_OPT_MESSAGE_TYPE \<and> rd (gPB s) (p + 2) = Inr K))"
proof -
  have eq: "dhcp_received_message_type len K s = Inr True \<longleftrightarrow>
      70 \<le> len \<and>
      rd (gPB s) UDP_SRC_PORT_L_P = Inr 67 \<and>
      rd_u32 (gPB s) (UDP_DATA_P + xid_P) = Inr (currentXid s) \<and>
      msg_type_scan (gPB s) (unat len) K options_P = Inr True"
    by (auto simp: dhcp_received_message_type_def ucast_port split: sum.splits if_splits)
  moreover have
    "\<exists>p\<ge>options_P. rd (gPB s) p = Inr DHCP_OPT_MESSAGE_TYPE \<and> rd (gPB s) (p + 2) = Inr K"
    if "dhcp_received_message_type len K s = Inr True"
    using that eq msg_type_scan_found [of "gPB s" "unat len" K options_P] by blast
  ultimately show ?thesis by blast
qed

theorem received_message_type_checks_witness:
  "dhcp_received_message_type 304 DHCP_OFFER offer_example = Inr True \<and>
   (70 :: u16) \<le> 304 \<and>
   rd (gPB offer_example) UDP_SRC_PORT_L_P = Inr 67 \<and>
   rd_u32 (gPB offer_example) (UDP_DATA_P + xid_P) = Inr (currentXid offer_example) \<and>
   (\<exists>p\<ge>options_P. rd (gPB offer_example) p = Inr DHCP_OPT_MESSAGE_TYPE \<and>
       rd (gPB offer_example) (p + 2) = Inr DHCP_OFFER)"
proof -
  have x: "rd_u32 (gPB offer_example) (UDP_DATA_P + xid_P) = Inr (currentXid offer_example)"
    by (simp add: offer_example_def frame_xid u32_of_def)
  have l: "rd (gPB offer_example) UDP_SRC_PORT_L_P = Inr 67"
    by (simp add: offer_example_def frame_sport)
  have m: "msg_type_scan (gPB offer_example) (unat (304 :: u16)) DHCP_OFFER options_P = Inr True"
    by (simp add: offer_example_def offer_scan_example)
  have a: "dhcp_received_message_type 304 DHCP_OFFER offer_example = Inr True"
    using x l m by (simp add: dhcp_received_message_type_def DHCP_SERVER_PORT_def)
  from received_message_type_checks [of 304 DHCP_OFFER offer_example] a x l
  show ?thesis by simp
qed

text \<open>
  C4 as stated fails: a frame of 304 octets with the session's transaction id and message
  type OFFER whose UDP source port is 323 (0x0143), not 67, is accepted as an OFFER.
\<close>

theorem low_octet_only_counterexample:
  "udp_src_port (gPB spoofed_example) = 323 \<and>
   udp_src_port (gPB spoofed_example) \<noteq> 67 \<and>
   dhcp_received_message_type 304 DHCP_OFFER spoofed_example = Inr True"
proof -
  have p: "udp_src_port (gPB spoofed_example) = 323"
    by (simp add: udp_src_port_def spoofed_example_def frame_def layout nth_append)
  have x: "rd_u32 (gPB spoofed_example) (UDP_DATA_P + xid_P) = Inr (currentXid spoofed_example)"
    by (simp add: spoofed_example_def frame_xid u32_of_def)
  have l: "rd (gPB spoofed_example) UDP_SRC_PORT_L_P = Inr 67"
    by (simp add: spoofed_example_def frame_sport)
  have m: "msg_type_scan (gPB spoofed_example) (unat (304 :: u16)) DHCP_OFFER options_P = Inr True"
    by (simp add: spoofed_example_def offer_scan_example)
  have "dhcp_received_message_type 304 DHCP_OFFER spoofed_example = Inr True"
    using x l m by (simp add: dhcp_received_message_type_def DHCP_SERVER_PORT_def)
  with p show ?thesis by simp
qed

subsection \<open>C5: frames of another transaction\<close>

text \<open>
  C5, as the code has it. A step in SELECTING or REQUESTING on a frame whose transaction
  id differs from \<^verbatim>\<open>currentXid\<close> drops the frame: nothing is sent, nothing of the frame is
  stored, no fault is raised. The state stays as it is unless more than 10000 ms have
  passed since the state was entered; then the step is the timeout transition to INIT, as
  on a tick without a frame.
\<close>

theorem xid_mismatch_is_dropped:
  assumes "dhcpState s = DHCP_STATE_SELECTING \<or> dhcpState s = DHCP_STATE_REQUESTING"
    and "rd_u32 (gPB s) (UDP_DATA_P + xid_P) = Inr x" and "x \<noteq> currentXid s"
  shows "DhcpStateMachine len t1 t2 s =
         Inr (if 10000 < t1 - stateTimer s then s\<lparr>dhcpState := DHCP_STATE_INIT\<rparr> else s)"
proof -
  have r: "dhcp_received_message_type len K s = Inr False" for K
    using assms(2,3) by (rule xid_mismatch)
  from assms(1) show ?thesis
  proof
    assume "dhcpState s = DHCP_STATE_SELECTING"
    then show ?thesis
      by (simp add: DhcpStateMachine_def r request_timeout_def DHCP_REQUEST_TIMEOUT_def)
  next
    assume "dhcpState s = DHCP_STATE_REQUESTING"
    then show ?thesis
      by (simp add: DhcpStateMachine_def await_ack_def r request_timeout_def
          DHCP_REQUEST_TIMEOUT_def)
  qed
qed

theorem xid_mismatch_is_dropped_witness:
  "dhcpState selecting_example = DHCP_STATE_SELECTING \<and>
   rd_u32 (gPB selecting_example) (UDP_DATA_P + xid_P) = Inr 11 \<and>
   currentXid selecting_example = 10 \<and>
   DhcpStateMachine 304 5000 5000 selecting_example = Inr selecting_example"
proof -
  have h1: "dhcpState selecting_example = DHCP_STATE_SELECTING \<or>
            dhcpState selecting_example = DHCP_STATE_REQUESTING"
    by (simp add: selecting_example_def)
  have c: "currentXid selecting_example = 10"
    by (simp add: selecting_example_def)
  have h3: "(11 :: u32) \<noteq> currentXid selecting_example"
    by (simp add: c)
  have t: "stateTimer selecting_example = 0"
    by (simp add: selecting_example_def boot_state_def)
  have d: "dhcpState selecting_example = DHCP_STATE_SELECTING"
    by (simp add: selecting_example_def)
  from xid_mismatch_is_dropped [OF h1 selecting_example_xid h3, of 304 5000 5000] t c d
  show ?thesis by (simp add: selecting_example_xid)
qed

text \<open>
  C5 as stated fails: in SELECTING since clock 0 with transaction id 10, a step at clock
  10001 on an OFFER for transaction id 11 changes the state, to INIT.
\<close>

theorem xid_mismatch_counterexample:
  "dhcpState selecting_example = DHCP_STATE_SELECTING \<and>
   rd_u32 (gPB selecting_example) (UDP_DATA_P + xid_P) = Inr 11 \<and>
   currentXid selecting_example = 10 \<and>
   DhcpStateMachine 304 10001 10001 selecting_example =
     Inr (selecting_example\<lparr>dhcpState := DHCP_STATE_INIT\<rparr>) \<and>
   dhcpState selecting_example \<noteq> dhcpState (selecting_example\<lparr>dhcpState := DHCP_STATE_INIT\<rparr>)"
proof -
  have c: "currentXid selecting_example = 10"
    by (simp add: selecting_example_def)
  have r: "dhcp_received_message_type 304 DHCP_OFFER selecting_example = Inr False"
    by (rule xid_mismatch [OF selecting_example_xid]) (simp add: c)
  have d: "dhcpState selecting_example = DHCP_STATE_SELECTING"
    by (simp add: selecting_example_def)
  have t: "stateTimer selecting_example = 0"
    by (simp add: selecting_example_def boot_state_def)
  have "DhcpStateMachine 304 10001 10001 selecting_example =
        Inr (selecting_example\<lparr>dhcpState := DHCP_STATE_INIT\<rparr>)"
    by (simp add: DhcpStateMachine_def d r t request_timeout_def DHCP_REQUEST_TIMEOUT_def)
  with c d selecting_example_xid show ?thesis by simp
qed

subsection \<open>C6: the timeout in SELECTING\<close>

text \<open>
  C6, as the code has it. A step in SELECTING that finds no matching OFFER goes back to
  INIT when more than 10000 ms have passed since the state was entered
  (\<^verbatim>\<open>millis() - stateTimer > DHCP_REQUEST_TIMEOUT\<close>), and changes nothing otherwise: at
  exactly 10000 ms the session stays in SELECTING, from 10001 ms on it is back in INIT.
\<close>

theorem selecting_timeout_is_strict:
  assumes "dhcpState s = DHCP_STATE_SELECTING"
    and "dhcp_received_message_type len DHCP_OFFER s = Inr False"
  shows "DhcpStateMachine len t1 t2 s =
         Inr (if 10000 < t1 - stateTimer s then s\<lparr>dhcpState := DHCP_STATE_INIT\<rparr> else s)"
  using assms
  by (simp add: DhcpStateMachine_def request_timeout_def DHCP_REQUEST_TIMEOUT_def)

theorem selecting_timeout_is_strict_witness:
  "dhcpState selecting_example = DHCP_STATE_SELECTING \<and>
   dhcp_received_message_type 0 DHCP_OFFER selecting_example = Inr False \<and>
   DhcpStateMachine 0 10001 10001 selecting_example =
     Inr (selecting_example\<lparr>dhcpState := DHCP_STATE_INIT\<rparr>)"
proof -
  have h1: "dhcpState selecting_example = DHCP_STATE_SELECTING"
    by (simp add: selecting_example_def)
  have h2: "dhcp_received_message_type 0 DHCP_OFFER selecting_example = Inr False"
    by (simp add: no_frame)
  have t: "stateTimer selecting_example = 0"
    by (simp add: selecting_example_def boot_state_def)
  from selecting_timeout_is_strict [OF h1 h2, of 10001 10001] h1 h2 t
  show ?thesis by simp
qed

text \<open>
  C6 as stated fails: the client of the spec's scenario, started at clock 0 and receiving
  nothing, is in SELECTING after its first step, and the step at clock 10000 leaves it
  there, unchanged.
\<close>

theorem selecting_at_10000_counterexample:
  "\<exists>s1. DhcpStateMachine 0 0 0 boot_state = Inr s1 \<and>
        dhcpState s1 = DHCP_STATE_SELECTING \<and>
        DhcpStateMachine 0 10000 10000 s1 = Inr s1"
proof -
  from boot_discover obtain s1 where
    a: "DhcpStateMachine 0 0 0 boot_state = Inr s1"
    and b: "dhcpState s1 = DHCP_STATE_SELECTING" and c: "stateTimer s1 = 0"
    by blast
  have "dhcp_received_message_type 0 DHCP_OFFER s1 = Inr False"
    by (simp add: no_frame)
  with b c have "DhcpStateMachine 0 10000 10000 s1 = Inr s1"
    by (simp add: DhcpStateMachine_def request_timeout_def DHCP_REQUEST_TIMEOUT_def)
  with a b show ?thesis by blast
qed

subsection \<open>C7: the infinite lease\<close>

text \<open>
  C7. With the lease time at the sentinel 0xFFFFFFFF, a step in BOUND changes nothing,
  whatever the clock and the frame length are: the session stays in BOUND, it does not go
  to RENEWING, and nothing is sent.
\<close>

theorem infinite_lease_never_renews:
  assumes "leaseTime s = DHCP_INFINITE_LEASE" and "dhcpState s = DHCP_STATE_BOUND"
  shows "DhcpStateMachine len t1 t2 s = Inr s"
  using assms by (simp add: DhcpStateMachine_def)

theorem infinite_lease_never_renews_witness:
  "leaseTime (bound_example\<lparr>leaseTime := 0xffffffff\<rparr>) = DHCP_INFINITE_LEASE \<and>
   dhcpState (bound_example\<lparr>leaseTime := 0xffffffff\<rparr>) = DHCP_STATE_BOUND \<and>
   DhcpStateMachine 0 0xfffffffe 0xfffffffe (bound_example\<lparr>leaseTime := 0xffffffff\<rparr>) =
     Inr (bound_example\<lparr>leaseTime := 0xffffffff\<rparr>)"
proof -
  let ?s = "bound_example\<lparr>leaseTime := 0xffffffff\<rparr>"
  have h1: "leaseTime ?s = DHCP_INFINITE_LEASE"
    by (simp add: DHCP_INFINITE_LEASE_def)
  have h2: "dhcpState ?s = DHCP_STATE_BOUND"
    by (simp add: bound_example_def)
  from infinite_lease_never_renews [OF h1 h2, of 0 "0xfffffffe" "0xfffffffe"] h1 h2
  show ?thesis by simp
qed

subsection \<open>C8: the release\<close>

text \<open>
  C8. In a buffer that holds the message (301 octets), \<^verbatim>\<open>dhcpRelease\<close> returns from any
  state. It sends one message, at a moment when \<^verbatim>\<open>dhcpState\<close> is RELEASING: 259 octets
  with the session's transaction id, the current client address in ciaddr, the DHCP
  server's address in siaddr, the magic cookie, and the options Message Type = RELEASE,
  Client Identifier and Server Identifier = the DHCP server's address. Afterwards the
  local address, the netmask, the broadcast address, the gateway, the DHCP server and the
  DNS server are all zero and the state is RELEASED.
\<close>

theorem dhcpRelease_sends_and_clears:
  assumes "UDP_DATA_P + sizeof_DHCPdata + 23 \<le> length (gPB s)"
  shows "\<exists>s' payload.
     dhcpRelease s = Inr s' \<and>
     trace s' = trace s @
       [UdpPrepare DHCP_CLIENT_PORT allOnes_ip DHCP_SERVER_PORT,
        UdpTransmit DHCP_STATE_RELEASING payload] \<and>
     length payload = sizeof_DHCPdata + 23 \<and>
     field xid_P 4 payload = u32_bytes (currentXid s) \<and>
     field ciaddr_P 4 payload = ip_bytes (myip s) \<and>
     field siaddr_P 4 payload = ip_bytes (dhcpip s) \<and>
     field sizeof_DHCPdata 4 payload = cookie \<and>
     options_of (drop (sizeof_DHCPdata + 4) payload) =
       [(DHCP_OPT_MESSAGE_TYPE, [DHCP_RELEASE]),
        (DHCP_OPT_CLIENT_IDENTIFIER, DHCP_HTYPE_ETHER # mac_bytes (mymac s)),
        (DHCP_OPT_SERVER_IDENTIFIER, ip_bytes (dhcpip s))] \<and>
     myip s' = ip_zero \<and> netmask s' = ip_zero \<and> broadcastip s' = ip_zero \<and>
     gwip s' = ip_zero \<and> dhcpip s' = ip_zero \<and> dnsip s' = ip_zero \<and>
     dhcpState s' = DHCP_STATE_RELEASED"
proof -
  from assms have len: "301 \<le> length (gPB s)" by (simp add: layout)
  let ?payload = "take 259 (drop 42 (release_buffer s))"
  let ?s' = "s\<lparr>bufPtr := 301,
            trace := trace s @
              [UdpPrepare DHCP_CLIENT_PORT allOnes_ip DHCP_SERVER_PORT,
               UdpTransmit DHCP_STATE_RELEASING ?payload],
            gPB := put 0 (replicate 278 0) (release_buffer s),
            myip := ip_zero, netmask := ip_zero, broadcastip := ip_zero,
            gwip := ip_zero, dhcpip := ip_zero, dnsip := ip_zero,
            hisip := ip_zero, dhcpState := DHCP_STATE_RELEASED,
            using_dhcp := False\<rparr>"
  have r: "dhcpRelease s = Inr ?s'"
    by (rule dhcpRelease_run [OF len])
  note f = release_buffer_fields [OF len]
  have lb: "length (release_buffer s) = length (gPB s)"
    by (simp add: release_buffer_def del: put.simps)
  have 1: "length ?payload = sizeof_DHCPdata + 23"
    using len by (simp add: lb layout)
  have 2: "field xid_P 4 ?payload = u32_bytes (currentXid s)"
    using f(3) by (simp add: field_def layout drop_take add.commute)
  have 3: "field ciaddr_P 4 ?payload = ip_bytes (myip s)"
    using f(1) by (simp add: field_def layout drop_take add.commute)
  have 4: "field siaddr_P 4 ?payload = ip_bytes (dhcpip s)"
    using f(2) by (simp add: field_def layout drop_take add.commute)
  have o: "drop sizeof_DHCPdata ?payload = release_options s"
    using f(4) by (simp add: layout drop_take add.commute)
  have 5: "field sizeof_DHCPdata 4 ?payload = cookie"
    unfolding field_def o by (simp add: release_options_def cookie_def)
  have "drop (sizeof_DHCPdata + 4) ?payload = drop 4 (drop sizeof_DHCPdata ?payload)"
    by (simp add: add.commute)
  then have 6: "options_of (drop (sizeof_DHCPdata + 4) ?payload) =
       [(DHCP_OPT_MESSAGE_TYPE, [DHCP_RELEASE]),
        (DHCP_OPT_CLIENT_IDENTIFIER, DHCP_HTYPE_ETHER # mac_bytes (mymac s)),
        (DHCP_OPT_SERVER_IDENTIFIER, ip_bytes (dhcpip s))]"
    by (simp only: o release_options_decoded)
  show ?thesis
    using r 1 2 3 4 5 6
    by (intro exI [of _ ?s'] exI [of _ ?payload]) simp
qed

theorem dhcpRelease_sends_and_clears_witness:
  "UDP_DATA_P + sizeof_DHCPdata + 23 \<le> length (gPB bound_example) \<and>
   (\<exists>s' payload.
      dhcpRelease bound_example = Inr s' \<and>
      trace s' =
        [UdpPrepare DHCP_CLIENT_PORT allOnes_ip DHCP_SERVER_PORT,
         UdpTransmit DHCP_STATE_RELEASING payload] \<and>
      length payload = 259 \<and>
      field ciaddr_P 4 payload = [192, 168, 1, 50] \<and>
      field siaddr_P 4 payload = [192, 168, 1, 1] \<and>
      options_of (drop (sizeof_DHCPdata + 4) payload) =
        [(DHCP_OPT_MESSAGE_TYPE, [DHCP_RELEASE]),
         (DHCP_OPT_CLIENT_IDENTIFIER, [DHCP_HTYPE_ETHER, 0xAA, 0xBB, 0xCC, 0xDD, 0xEE, 0xFF]),
         (DHCP_OPT_SERVER_IDENTIFIER, [192, 168, 1, 1])] \<and>
      myip s' = ip_zero \<and> gwip s' = ip_zero \<and> dhcpip s' = ip_zero \<and>
      dhcpState s' = DHCP_STATE_RELEASED)"
proof -
  have h: "UDP_DATA_P + sizeof_DHCPdata + 23 \<le> length (gPB bound_example)"
    by (simp add: bound_example_def boot_state_def layout)
  have v: "trace bound_example = []" "ip_bytes (myip bound_example) = [192, 168, 1, 50]"
    "ip_bytes (dhcpip bound_example) = [192, 168, 1, 1]"
    "mac_bytes (mymac bound_example) = [0xAA, 0xBB, 0xCC, 0xDD, 0xEE, 0xFF]"
    by (simp_all add: bound_example_def boot_state_def)
  from dhcpRelease_sends_and_clears [OF h] obtain s' payload where
    "dhcpRelease bound_example = Inr s'"
    "trace s' = trace bound_example @
       [UdpPrepare DHCP_CLIENT_PORT allOnes_ip DHCP_SERVER_PORT,
        UdpTransmit DHCP_STATE_RELEASING payload]"
    "length payload = sizeof_DHCPdata + 23"
    "field ciaddr_P 4 payload = ip_bytes (myip bound_example)"
    "field siaddr_P 4 payload = ip_bytes (dhcpip bound_example)"
    "options_of (drop (sizeof_DHCPdata + 4) payload) =
       [(DHCP_OPT_MESSAGE_TYPE, [DHCP_RELEASE]),
        (DHCP_OPT_CLIENT_IDENTIFIER, DHCP_HTYPE_ETHER # mac_bytes (mymac bound_example)),
        (DHCP_OPT_SERVER_IDENTIFIER, ip_bytes (dhcpip bound_example))]"
    "myip s' = ip_zero" "gwip s' = ip_zero" "dhcpip s' = ip_zero"
    "dhcpState s' = DHCP_STATE_RELEASED"
    by blast
  then have "dhcpRelease bound_example = Inr s' \<and>
      trace s' =
        [UdpPrepare DHCP_CLIENT_PORT allOnes_ip DHCP_SERVER_PORT,
         UdpTransmit DHCP_STATE_RELEASING payload] \<and>
      length payload = 259 \<and>
      field ciaddr_P 4 payload = [192, 168, 1, 50] \<and>
      field siaddr_P 4 payload = [192, 168, 1, 1] \<and>
      options_of (drop (sizeof_DHCPdata + 4) payload) =
        [(DHCP_OPT_MESSAGE_TYPE, [DHCP_RELEASE]),
         (DHCP_OPT_CLIENT_IDENTIFIER, [DHCP_HTYPE_ETHER, 0xAA, 0xBB, 0xCC, 0xDD, 0xEE, 0xFF]),
         (DHCP_OPT_SERVER_IDENTIFIER, [192, 168, 1, 1])] \<and>
      myip s' = ip_zero \<and> gwip s' = ip_zero \<and> dhcpip s' = ip_zero \<and>
      dhcpState s' = DHCP_STATE_RELEASED"
    by (simp add: v sizeof_DHCPdata_def)
  with h show ?thesis by blast
qed

subsection \<open>C9: steps after a release\<close>

text \<open>
  C9. A step in RELEASING or RELEASED, with any frame length and at any clock, returns
  the state as it was: the session state and every configuration field are unchanged, and
  nothing is sent (the trace is unchanged too).
\<close>

theorem released_is_terminal:
  assumes "dhcpState s = DHCP_STATE_RELEASING \<or> dhcpState s = DHCP_STATE_RELEASED"
  shows "DhcpStateMachine len t1 t2 s = Inr s"
  using assms
proof
  assume "dhcpState s = DHCP_STATE_RELEASING"
  then show ?thesis by (simp add: DhcpStateMachine_def)
next
  assume "dhcpState s = DHCP_STATE_RELEASED"
  then show ?thesis by (simp add: DhcpStateMachine_def)
qed

theorem released_is_terminal_witness:
  "dhcpState released_example = DHCP_STATE_RELEASED \<and>
   DhcpStateMachine 304 70000 70000 released_example = Inr released_example"
proof -
  have h: "dhcpState released_example = DHCP_STATE_RELEASING \<or>
           dhcpState released_example = DHCP_STATE_RELEASED"
    by (simp add: released_example_def)
  from released_is_terminal [OF h, of 304 70000 70000] show ?thesis
    by (simp add: released_example_def)
qed

subsection \<open>C10: the stored lease time\<close>

text \<open>
  C10, as the code has it. Let an option callback be registered, and let the buffer hold
  the six octets from the first option on and five octets past the frame length. Then
  \<^verbatim>\<open>process_dhcp_ack\<close> returns, and when the last Lease Time (51) or Renewal Time (58)
  option that its loop looks at has the value octets \<open>b0 b1 b2 b3\<close>, not all 0xFF, the
  lease time it has stored is the big-endian value of the four octets times 1000, modulo
  \<open>2 ^ 32\<close>: a lease of 4294968 seconds (about 49.7 days) or more is stored as a shorter
  one. The stored value of such a lease is never the sentinel 0xFFFFFFFF.
\<close>

theorem ack_lease_time_wraps:
  assumes "dhcpCustomOptionCallback s"
    and "options_P + 6 \<le> length (gPB s)" and "unat len + 5 \<le> length (gPB s)"
    and "filter (\<lambda>q. is_lease_option (gPB s ! q))
           (scanned_options (gPB s) (unat len) options_P) = qs @ [p]"
    and "take 4 (drop (p + 2) (gPB s)) = [b0, b1, b2, b3]"
    and "\<not> (b0 = 0xFF \<and> b1 = 0xFF \<and> b2 = 0xFF \<and> b3 = 0xFF)"
  shows "\<exists>s'. process_dhcp_ack len s = Inr s' \<and>
           unat (leaseTime s') =
             ((unat b0 * 2 ^ 24 + unat b1 * 2 ^ 16 + unat b2 * 2 ^ 8 + unat b3) * 1000)
               mod 2 ^ 32 \<and>
           leaseTime s' \<noteq> DHCP_INFINITE_LEASE"
proof -
  from process_dhcp_ack_returns [OF assms(1,2,3)] obtain s' where
    r: "process_dhcp_ack len s = Inr s'" by blast
  let ?v = "lease_seconds [b0, b1, b2, b3]"
  from assms(6) have fin: "?v \<noteq> DHCP_INFINITE_LEASE"
    by (simp add: lease_seconds_infinite)
  have "leaseTime s' = lease_at (gPB s) p"
    using process_dhcp_ack_effect(2) [OF r] foldl_lease_last [OF assms(4)] by simp
  then have lt: "leaseTime s' = lease_millis ?v"
    by (simp only: lease_at_def assms(5))
  from lt lease_millis_finite [OF fin] have
    "unat (leaseTime s') = (unat ?v * 1000) mod 2 ^ 32" by simp
  moreover from lt lease_millis_not_infinite [OF fin] have
    "leaseTime s' \<noteq> DHCP_INFINITE_LEASE" by simp
  ultimately show ?thesis using r by (simp add: lease_seconds_big_endian)
qed

text \<open>
  At an ACK with the one lease option 51 = 4294968 seconds, the stored lease time is 704
  milliseconds.
\<close>

theorem ack_lease_time_wraps_witness:
  "dhcpCustomOptionCallback ack_example \<and>
   options_P + 6 \<le> length (gPB ack_example) \<and>
   unat (304 :: u16) + 5 \<le> length (gPB ack_example) \<and>
   filter (\<lambda>q. is_lease_option (gPB ack_example ! q))
     (scanned_options (gPB ack_example) (unat (304 :: u16)) options_P) = [] @ [297] \<and>
   take 4 (drop (297 + 2) (gPB ack_example)) = [0, 0x41, 0x89, 0x38] \<and>
   (\<exists>s'. process_dhcp_ack 304 ack_example = Inr s' \<and>
         unat (leaseTime s') = (4294968 * 1000) mod 2 ^ 32 \<and>
         leaseTime s' = 704 \<and>
         leaseTime s' \<noteq> DHCP_INFINITE_LEASE)"
proof -
  have g: "gPB ack_example = frame 0 [10, 0, 0, 0] [192, 168, 1, 50] ack_options"
    by (simp add: ack_example_def dhcpAddOptionCallback_def requesting_example_def)
  have n: "length (gPB ack_example) = 400"
    by (simp add: g frame_def ack_options_def)
  have h1: "dhcpCustomOptionCallback ack_example"
    by (simp add: ack_example_def dhcpAddOptionCallback_def)
  have h2: "options_P + 6 \<le> length (gPB ack_example)"
    by (simp add: n layout)
  have h3: "unat (304 :: u16) + 5 \<le> length (gPB ack_example)"
    by (simp add: n)
  have h4: "filter (\<lambda>q. is_lease_option (gPB ack_example ! q))
          (scanned_options (gPB ack_example) (unat (304 :: u16)) options_P) = [] @ [297]"
    unfolding ack_example_scanned
    by (simp add: g frame_def ack_options_def nth_append is_lease_option_def tags)
  have h5: "take 4 (drop (297 + 2) (gPB ack_example)) = [0, 0x41, 0x89, 0x38]"
    by (simp add: g frame_def ack_options_def)
  have h6: "\<not> ((0 :: byte) = 0xFF \<and> (0x41 :: byte) = 0xFF \<and> (0x89 :: byte) = 0xFF \<and>
                (0x38 :: byte) = 0xFF)"
    by simp
  from ack_lease_time_wraps [OF h1 h2 h3 h4 h5 h6] obtain s' where
    r: "process_dhcp_ack 304 ack_example = Inr s'"
    and u: "unat (leaseTime s') = (4294968 * 1000) mod 2 ^ 32"
    and i: "leaseTime s' \<noteq> DHCP_INFINITE_LEASE"
    by auto
  from u have "unat (leaseTime s') = unat (704 :: u32)" by simp
  then have "leaseTime s' = 704" by (simp only: word_unat_eq_iff)
  with r u i have "\<exists>s'. process_dhcp_ack 304 ack_example = Inr s' \<and>
         unat (leaseTime s') = (4294968 * 1000) mod 2 ^ 32 \<and>
         leaseTime s' = 704 \<and>
         leaseTime s' \<noteq> DHCP_INFINITE_LEASE"
    by blast
  with h1 h2 h3 h4 h5 show ?thesis by blast
qed

text \<open>
  C10 as stated fails in its last part: no lease time other than the sentinel is stored
  as the sentinel 0xFFFFFFFF (a multiple of 1000 is even, the sentinel is odd).
\<close>

theorem lease_never_aliases_to_infinite:
  "\<not> (\<exists>v. v \<noteq> DHCP_INFINITE_LEASE \<and> lease_millis v = DHCP_INFINITE_LEASE)"
  using lease_millis_not_infinite by blast

end
